theory Spec2Isabelle
  imports Main "HOL-Library.Word" "HOL-Library.AList" "HOL-Library.Char_ord"
    "HOL-Library.List_Lexorder"
begin

unbundle bit_operations_syntax

section \<open>Data of the certificate manager (pkg/certmgr)\<close>

text \<open>
  Go strings and byte slices are sequences of bytes; an Isabelle \<open>char\<close> is one byte.
  Go's \<open>int\<close> and \<open>int64\<close> are 64-bit words on every target the project builds for;
  signed comparisons are written with \<open><s\<close> and signed readings with \<open>sint\<close>.
\<close>

type_synonym bytes = string

text \<open>
  \<open>pkix.Name\<close>: the attributes of a distinguished name that the tool fills from its
  command-line flags. The zero value of the Go struct is \<open>zero_Name\<close> below.
\<close>

record Name =
  Country :: "string list"
  Organization :: "string list"
  OrganizationalUnit :: "string list"
  Locality :: "string list"
  Province :: "string list"
  StreetAddress :: "string list"
  PostalCode :: "string list"
  SerialNumber :: string
  CommonName :: string

definition zero_Name :: Name where
  "zero_Name = \<lparr>Country = [], Organization = [], OrganizationalUnit = [], Locality = [],
     Province = [], StreetAddress = [], PostalCode = [], SerialNumber = [], CommonName = []\<rparr>"

text \<open>\<open>x509.KeyUsage\<close> is a Go \<open>int\<close> used as a bit set: \<open>1 << iota\<close>.\<close>

type_synonym KeyUsage = "64 word"

definition KeyUsageDigitalSignature :: KeyUsage where "KeyUsageDigitalSignature = push_bit 0 1"
definition KeyUsageContentCommitment :: KeyUsage where "KeyUsageContentCommitment = push_bit 1 1"
definition KeyUsageKeyEncipherment :: KeyUsage where "KeyUsageKeyEncipherment = push_bit 2 1"
definition KeyUsageDataEncipherment :: KeyUsage where "KeyUsageDataEncipherment = push_bit 3 1"
definition KeyUsageKeyAgreement :: KeyUsage where "KeyUsageKeyAgreement = push_bit 4 1"
definition KeyUsageCertSign :: KeyUsage where "KeyUsageCertSign = push_bit 5 1"
definition KeyUsageCRLSign :: KeyUsage where "KeyUsageCRLSign = push_bit 6 1"
definition KeyUsageEncipherOnly :: KeyUsage where "KeyUsageEncipherOnly = push_bit 7 1"
definition KeyUsageDecipherOnly :: KeyUsage where "KeyUsageDecipherOnly = push_bit 8 1"

datatype ExtKeyUsage =
    ExtKeyUsageAny
  | ExtKeyUsageServerAuth
  | ExtKeyUsageClientAuth
  | ExtKeyUsageCodeSigning
  | ExtKeyUsageEmailProtection
  | ExtKeyUsageIPSECEndSystem
  | ExtKeyUsageIPSECTunnel
  | ExtKeyUsageIPSECUser
  | ExtKeyUsageTimeStamping
  | ExtKeyUsageOCSPSigning

text \<open>
  \<open>x509.Certificate\<close>, the fields that \<open>create\<close> sets in its template; a Go field that
  is not set holds its zero value (\<open>nil\<close> slices are \<open>[]\<close>, the \<open>nil\<close> serial is
  \<open>None\<close>). Instants of time are integers.
\<close>

record Certificate =
  Subject :: Name
  Issuer :: Name
  NotBefore :: int
  NotAfter :: int
  IsCA :: bool
  KeyUsage :: KeyUsage
  BasicConstraintsValid :: bool
  SerialNumber :: "int option"
  ExtKeyUsage :: "ExtKeyUsage list"
  DNSNames :: "string list"
  IPAddresses :: "bytes list"

record PublicKey =
  N :: int
  E :: int

record PrivateKey =
  PublicKey :: PublicKey
  D :: int
  Primes :: "int list"

text \<open>\<open>PairHolder\<close> wraps a certificate and the corresponding private key.\<close>

record PairHolder =
  Cert :: Certificate
  Key :: PrivateKey

record certMgr =
  dir :: string

record CertData =
  KeySize :: "64 word"
  ValidYears :: "64 word"
  IPSan :: "bytes list"
  DNSSan :: "string list"
  Alias :: string
  ParentAlias :: string
  SelfSigned :: bool
  IsCA :: bool
  Issuer :: Name
  Subject :: Name
  Serial :: "64 word"

record Block =
  Type :: string
  Headers :: "(string \<times> string) list"
  Bytes :: bytes

definition typeCert :: string where
  "typeCert = ''CERTIFICATE''"

definition typeRsaPrivateKey :: string where
  "typeRsaPrivateKey = ''RSA PRIVATE KEY''"

subsection \<open>Errors\<close>

datatype errno = ENOENT | EACCES | EIO | ENOTDIR

text \<open>
  The sentinel errors of \<open>pkg/common\<close>, the two \<open>fmt.Errorf\<close> values of the manager
  (with the values they format), the \<open>*PathError\<close> of package \<open>os\<close> (operation, path,
  cause), an error of one of the cryptographic libraries (its message), and the run-time
  panics of a slice expression out of range and of a \<open>nil\<close> dereference.
\<close>

datatype error =
    ErrIssuerMissing
  | ErrAliasMissing
  | ErrSubjectMissing
  | ErrParentAliasMissing
  | ErrInvalidValidYears "64 word" "64 word"
  | ErrCantLoadCertificate string
  | ErrCantLoadPrivateKey string
  | PathError string string errno
  | LibraryError string
  | PanicSliceBounds
  | PanicNilDereference

section \<open>The environment: operating system, clock, randomness\<close>

text \<open>
  Every call that leaves the program is recorded in a trace, with its arguments: the
  calls of package \<open>os\<close>, and the two library calls that draw from \<open>rand.Reader\<close>.
\<close>

datatype event =
    EvStat string
  | EvRemove string
  | EvReadFile string
  | EvReadDir string
  | EvWriteFile string bytes "32 word"
  | EvGenerateKey "64 word"
  | EvCreateCertificate Certificate Certificate

text \<open>
  The world outside the program: the regular files by their path, as the program spells
  it (an association list, so that a directory can be enumerated); for every path, the
  failure the operating system answers any call on it with, if any (permission denied,
  an I/O error, a missing directory); the readings of the clock still to come and how
  many were taken; the state of the random source; the trace.
\<close>

record world =
  files :: "(string \<times> bytes) list"
  fault :: "string \<Rightarrow> errno option"
  clock :: "nat \<Rightarrow> int"
  reads :: nat
  rng :: nat
  trace :: "event list"

definition emit :: "event \<Rightarrow> world \<Rightarrow> world" where
  "emit e w = w\<lparr>trace := trace w @ [e]\<rparr>"

text \<open>\<open>os.IsNotExist\<close>: true for an error whose cause is \<open>ENOENT\<close>.\<close>

fun os_IsNotExist :: "error \<Rightarrow> bool" where
  "os_IsNotExist (PathError op' path e) = (e = ENOENT)"
| "os_IsNotExist _ = False"

definition os_Stat :: "world \<Rightarrow> string \<Rightarrow> error option \<times> world" where
  "os_Stat w name =
     ((case fault w name of
         Some e \<Rightarrow> Some (PathError ''stat'' name e)
       | None \<Rightarrow>
           (case map_of (files w) name of
              None \<Rightarrow> Some (PathError ''stat'' name ENOENT)
            | Some data \<Rightarrow> None)),
      emit (EvStat name) w)"

definition os_Remove :: "world \<Rightarrow> string \<Rightarrow> error option \<times> world" where
  "os_Remove w name =
     (case fault w name of
        Some e \<Rightarrow> (Some (PathError ''remove'' name e), emit (EvRemove name) w)
      | None \<Rightarrow>
          (case map_of (files w) name of
             None \<Rightarrow> (Some (PathError ''remove'' name ENOENT), emit (EvRemove name) w)
           | Some data \<Rightarrow>
               (None, emit (EvRemove name) (w\<lparr>files := AList.delete name (files w)\<rparr>))))"

definition os_ReadFile :: "world \<Rightarrow> string \<Rightarrow> (error + bytes) \<times> world" where
  "os_ReadFile w name =
     ((case fault w name of
         Some e \<Rightarrow> Inl (PathError ''open'' name e)
       | None \<Rightarrow>
           (case map_of (files w) name of
              None \<Rightarrow> Inl (PathError ''open'' name ENOENT)
            | Some data \<Rightarrow> Inr data)),
      emit (EvReadFile name) w)"

definition os_WriteFile ::
  "world \<Rightarrow> string \<Rightarrow> bytes \<Rightarrow> 32 word \<Rightarrow> error option \<times> world" where
  "os_WriteFile w name data perm =
     (case fault w name of
        Some e \<Rightarrow> (Some (PathError ''open'' name e), emit (EvWriteFile name data perm) w)
      | None \<Rightarrow>
          (None, emit (EvWriteFile name data perm)
                   (w\<lparr>files := AList.update name data (files w)\<rparr>)))"

text \<open>
  The entries of a directory: the first path component below it of every file, once
  each, sorted by name as \<open>os.ReadDir\<close> returns them.
\<close>

definition entry_below :: "string \<Rightarrow> string \<Rightarrow> string list" where
  "entry_below d path =
     (if take (length d + 1) path = d @ ''/''
      then (let n = takeWhile (\<lambda>c. c \<noteq> CHR ''/'') (drop (length d + 1) path)
            in if n = [] then [] else [n])
      else [])"

definition os_ReadDir :: "world \<Rightarrow> string \<Rightarrow> (error + string list) \<times> world" where
  "os_ReadDir w d =
     ((case fault w d of
         Some e \<Rightarrow> Inl (PathError ''open'' d e)
       | None \<Rightarrow> Inr (sort (remdups (concat (map (entry_below d \<circ> fst) (files w)))))),
      emit (EvReadDir d) w)"

definition time_Now :: "world \<Rightarrow> int \<times> world" where
  "time_Now w = (clock w (reads w), w\<lparr>reads := Suc (reads w)\<rparr>)"

section \<open>The libraries the manager calls\<close>

text \<open>
  The functions of Go's standard library that the manager calls are parameters of the
  model: \<open>pkix.Name.String\<close>, \<open>pem.Decode\<close> (its first result) and \<open>pem.Encode\<close>,
  \<open>x509.ParseCertificate\<close>, \<open>x509.ParsePKCS1PrivateKey\<close>,
  \<open>x509.MarshalPKCS1PrivateKey\<close>, \<open>time.Time.AddDate\<close>, and the two that read
  \<open>rand.Reader\<close> and so take and return the state of the random source:
  \<open>rsa.GenerateKey\<close> and \<open>x509.CreateCertificate\<close>. A failing call gives its message.
\<close>

record stdlib =
  pkix_Name_String :: "Name \<Rightarrow> string"
  pem_Decode :: "bytes \<Rightarrow> Block option"
  pem_Encode :: "Block \<Rightarrow> string + bytes"
  x509_ParseCertificate :: "bytes \<Rightarrow> string + Certificate"
  x509_ParsePKCS1PrivateKey :: "bytes \<Rightarrow> string + PrivateKey"
  x509_MarshalPKCS1PrivateKey :: "PrivateKey \<Rightarrow> bytes"
  time_AddDate :: "int \<Rightarrow> 64 word \<Rightarrow> 64 word \<Rightarrow> 64 word \<Rightarrow> int"
  rsa_GenerateKey :: "nat \<Rightarrow> 64 word \<Rightarrow> (string + PrivateKey) \<times> nat"
  x509_CreateCertificate ::
    "nat \<Rightarrow> Certificate \<Rightarrow> Certificate \<Rightarrow> PublicKey \<Rightarrow> PrivateKey \<Rightarrow> (string + bytes) \<times> nat"

definition GenerateKey :: "stdlib \<Rightarrow> world \<Rightarrow> 64 word \<Rightarrow> (error + PrivateKey) \<times> world" where
  "GenerateKey L w bits =
     (case rsa_GenerateKey L (rng w) bits of
        (r, g) \<Rightarrow>
          ((case r of Inl m \<Rightarrow> Inl (LibraryError m) | Inr k \<Rightarrow> Inr k),
           emit (EvGenerateKey bits) (w\<lparr>rng := g\<rparr>)))"

definition CreateCertificate ::
  "stdlib \<Rightarrow> world \<Rightarrow> Certificate \<Rightarrow> Certificate \<Rightarrow> PublicKey \<Rightarrow> PrivateKey
     \<Rightarrow> (error + bytes) \<times> world" where
  "CreateCertificate L w template parent pub priv =
     (case x509_CreateCertificate L (rng w) template parent pub priv of
        (r, g) \<Rightarrow>
          ((case r of Inl m \<Rightarrow> Inl (LibraryError m) | Inr der \<Rightarrow> Inr der),
           emit (EvCreateCertificate template parent) (w\<lparr>rng := g\<rparr>)))"

text \<open>\<open>strings.HasSuffix\<close>.\<close>

definition strings_HasSuffix :: "string \<Rightarrow> string \<Rightarrow> bool" where
  "strings_HasSuffix s suffix =
     (length suffix \<le> length s \<and> drop (length s - length suffix) s = suffix)"

text \<open>
  \<open>lo.Filter\<close>, \<open>lo.Map\<close> and \<open>lo.Uniq\<close> of \<open>github.com/samber/lo\<close>. The callbacks of
  the manager ignore the index argument. A callback that panics ends \<open>lo.Map\<close>.
  \<open>lo.Uniq\<close> keeps the first occurrence of every element, in order.
\<close>

definition lo_Filter :: "('a \<Rightarrow> bool) \<Rightarrow> 'a list \<Rightarrow> 'a list" where
  "lo_Filter predicate collection = filter predicate collection"

fun lo_Map :: "('a \<Rightarrow> error + 'b) \<Rightarrow> 'a list \<Rightarrow> error + 'b list" where
  "lo_Map iteratee [] = Inr []"
| "lo_Map iteratee (item # collection) =
     (case iteratee item of
        Inl e \<Rightarrow> Inl e
      | Inr r \<Rightarrow>
          (case lo_Map iteratee collection of
             Inl e \<Rightarrow> Inl e
           | Inr result \<Rightarrow> Inr (r # result)))"

fun uniq_loop :: "'a list \<Rightarrow> 'a list \<Rightarrow> 'a list \<Rightarrow> 'a list" where
  "uniq_loop seen result [] = result"
| "uniq_loop seen result (x # collection) =
     (if x \<in> set seen then uniq_loop seen result collection
      else uniq_loop (x # seen) (result @ [x]) collection)"

definition lo_Uniq :: "'a list \<Rightarrow> 'a list" where
  "lo_Uniq collection = uniq_loop [] [] collection"

section \<open>The manager: pkg/certmgr\<close>

subsection \<open>Alias storage\<close>

text \<open>\<open>fmt.Sprintf("%s/%s.%s", cm.dir, alias, suffix)\<close>.\<close>

definition aliasToFile :: "certMgr \<Rightarrow> string \<Rightarrow> bool \<Rightarrow> string" where
  "aliasToFile cm alias private =
     (let suffix = (if private then ''key'' else ''pem'')
      in dir cm @ ''/'' @ alias @ ''.'' @ suffix)"

definition doesAliasFileExist :: "certMgr \<Rightarrow> world \<Rightarrow> string \<Rightarrow> bool \<Rightarrow> bool \<times> world" where
  "doesAliasFileExist cm w alias private =
     (case os_Stat w (aliasToFile cm alias private) of
        (Some err, w') \<Rightarrow> (\<not> os_IsNotExist err, w')
      | (None, w') \<Rightarrow> (True, w'))"

definition isAliasFilename :: "certMgr \<Rightarrow> string \<Rightarrow> bool" where
  "isAliasFilename cm file =
     (strings_HasSuffix file ''.pem'' \<or> strings_HasSuffix file ''.key'')"

text \<open>\<open>file[0 : len(file)-4]\<close> panics when the name has fewer than four bytes.\<close>

definition fileToAlias :: "certMgr \<Rightarrow> string \<Rightarrow> error + string" where
  "fileToAlias cm file =
     (if length file < 4 then Inl PanicSliceBounds else Inr (take (length file - 4) file))"

text \<open>The test \<open>err != nil && !os.IsNotExist(err)\<close> is a case on the error.\<close>

definition Delete :: "certMgr \<Rightarrow> world \<Rightarrow> string \<Rightarrow> error option \<times> world" where
  "Delete cm w alias =
     (case os_Remove w (aliasToFile cm alias True) of
        (err, w1) \<Rightarrow>
          if (case err of None \<Rightarrow> False | Some e \<Rightarrow> \<not> os_IsNotExist e) then (err, w1)
          else (case os_Remove w1 (aliasToFile cm alias False) of
                  (err', w2) \<Rightarrow>
                    if (case err' of None \<Rightarrow> False | Some e \<Rightarrow> \<not> os_IsNotExist e)
                    then (err', w2)
                    else (None, w2)))"

definition List :: "certMgr \<Rightarrow> world \<Rightarrow> (error + string list) \<times> world" where
  "List cm w =
     (case os_ReadDir w (dir cm) of
        (Inl err, w') \<Rightarrow> (Inl err, w')
      | (Inr entries, w') \<Rightarrow>
          ((case lo_Map (fileToAlias cm) (lo_Filter (isAliasFilename cm) entries) of
              Inl e \<Rightarrow> Inl e
            | Inr aliases \<Rightarrow> Inr (lo_Uniq aliases)),
           w'))"

subsection \<open>Loading and saving a pair\<close>

definition load :: "stdlib \<Rightarrow> certMgr \<Rightarrow> world \<Rightarrow> string \<Rightarrow> (error + PairHolder) \<times> world" where
  "load L cm w alias =
     (let name = dir cm @ ''/'' @ alias @ ''.pem'' in
      case os_ReadFile w name of
        (Inl err, w1) \<Rightarrow> (Inl err, w1)
      | (Inr data, w1) \<Rightarrow>
          (case pem_Decode L data of
             None \<Rightarrow> (Inl (ErrCantLoadCertificate name), w1)
           | Some block \<Rightarrow>
               if Type block \<noteq> typeCert then (Inl (ErrCantLoadCertificate name), w1)
               else
                 (case x509_ParseCertificate L (Bytes block) of
                    Inl m \<Rightarrow> (Inl (LibraryError m), w1)
                  | Inr cert \<Rightarrow>
                      (let name = dir cm @ ''/'' @ alias @ ''.key'' in
                       case os_ReadFile w1 name of
                         (Inl err, w2) \<Rightarrow> (Inl err, w2)
                       | (Inr data, w2) \<Rightarrow>
                           (case pem_Decode L data of
                              None \<Rightarrow> (Inl (ErrCantLoadPrivateKey name), w2)
                            | Some block \<Rightarrow>
                                if Type block \<noteq> typeRsaPrivateKey
                                then (Inl (ErrCantLoadPrivateKey name), w2)
                                else
                                  (case x509_ParsePKCS1PrivateKey L (Bytes block) of
                                     Inl m \<Rightarrow> (Inl (LibraryError m), w2)
                                   | Inr pKey \<Rightarrow>
                                       (Inr \<lparr>Cert = cert, Key = pKey\<rparr>, w2)))))))"

definition Get :: "stdlib \<Rightarrow> certMgr \<Rightarrow> world \<Rightarrow> string \<Rightarrow> (error + PairHolder) \<times> world" where
  "Get L cm w alias = load L cm w alias"

text \<open>The file modes are the octal literals \<open>0o640\<close> and \<open>0o400\<close> of the source.\<close>

definition save ::
  "stdlib \<Rightarrow> certMgr \<Rightarrow> world \<Rightarrow> bytes \<Rightarrow> bytes \<Rightarrow> string \<Rightarrow> error option \<times> world" where
  "save L cm w cert key alias =
     (case pem_Encode L \<lparr>Type = typeCert, Headers = [], Bytes = cert\<rparr> of
        Inl m \<Rightarrow> (Some (LibraryError m), w)
      | Inr certPem \<Rightarrow>
          (case pem_Encode L \<lparr>Type = typeRsaPrivateKey, Headers = [], Bytes = key\<rparr> of
             Inl m \<Rightarrow> (Some (LibraryError m), w)
           | Inr keyPem \<Rightarrow>
               (case os_WriteFile w (aliasToFile cm alias False) certPem (6 * 64 + 4 * 8 + 0) of
                  (Some err, w1) \<Rightarrow> (Some err, w1)
                | (None, w1) \<Rightarrow>
                    os_WriteFile w1 (aliasToFile cm alias True) keyPem (4 * 64 + 0 * 8 + 0))))"

subsection \<open>Validation rules\<close>

type_synonym checkFunc = "CertData \<Rightarrow> error option"

definition requireAlias :: checkFunc where
  "requireAlias data = (if length (Alias data) = 0 then Some ErrAliasMissing else None)"

definition requireSubject :: "stdlib \<Rightarrow> checkFunc" where
  "requireSubject L data =
     (if length (pkix_Name_String L (CertData.Subject data)) = 0
      then Some ErrSubjectMissing else None)"

definition requireParentAlias :: checkFunc where
  "requireParentAlias data =
     (if length (ParentAlias data) = 0 then Some ErrParentAliasMissing else None)"

definition validAtLeastYears :: "64 word \<Rightarrow> checkFunc" where
  "validAtLeastYears years data =
     (if ValidYears data <s years
      then Some (ErrInvalidValidYears (ValidYears data) years) else None)"

fun check :: "CertData \<Rightarrow> checkFunc list \<Rightarrow> error option" where
  "check data [] = None"
| "check data (checkFn # checks) =
     (case checkFn data of Some err \<Rightarrow> Some err | None \<Rightarrow> check data checks)"

subsection \<open>Issuance\<close>

definition getKeyUsage :: "CertData \<Rightarrow> KeyUsage" where
  "getKeyUsage cd =
     (if CertData.IsCA cd then KeyUsageCertSign OR KeyUsageCRLSign
      else KeyUsageDataEncipherment OR KeyUsageDigitalSignature)"

text \<open>
  \<open>create\<close>, statement by statement. \<open>ch\<close> is the \<open>nil\<close> pointer (\<open>None\<close>) until the
  parent is loaded; in the self-signed case the template is its own parent.
\<close>

definition create :: "stdlib \<Rightarrow> certMgr \<Rightarrow> world \<Rightarrow> CertData \<Rightarrow> error option \<times> world" where
  "create L cm w cd =
     (case time_Now w of (t1, wa) \<Rightarrow>
      case time_Now wa of (t2, wb) \<Rightarrow>
      let newCert =
            \<lparr>Certificate.Subject = CertData.Subject cd,
             Issuer = zero_Name,
             NotBefore = t1,
             NotAfter = time_AddDate L t2 (ValidYears cd) 0 0,
             IsCA = CertData.IsCA cd,
             KeyUsage = getKeyUsage cd,
             BasicConstraintsValid = True,
             SerialNumber = None,
             ExtKeyUsage = [],
             DNSNames = [],
             IPAddresses = []\<rparr>
      in
      case (if \<not> SelfSigned cd
            then (case load L cm wb (ParentAlias cd) of
                    (Inl err, w1) \<Rightarrow> (Inl err, w1)
                  | (Inr ch, w1) \<Rightarrow>
                      (Inr (Some ch,
                            newCert\<lparr>Certificate.Issuer := Certificate.Subject (Cert ch)\<rparr>), w1))
            else (Inr (None, newCert\<lparr>Certificate.Issuer := CertData.Issuer cd\<rparr>), wb)) of
        (Inl err, w1) \<Rightarrow> (Some err, w1)
      | (Inr (ch, newCert), w1) \<Rightarrow>
          let newCert =
                (if Serial cd \<noteq> 0
                 then newCert\<lparr>Certificate.SerialNumber := Some (sint (Serial cd))\<rparr>
                 else newCert\<lparr>Certificate.SerialNumber := Some 0\<rparr>);
              newCert =
                (if \<not> CertData.IsCA cd
                 then newCert\<lparr>ExtKeyUsage := [ExtKeyUsageClientAuth, ExtKeyUsageServerAuth],
                               DNSNames := DNSSan cd,
                               IPAddresses := IPSan cd\<rparr>
                 else newCert)
          in
          case GenerateKey L w1 (KeySize cd) of
            (Inl err, w2) \<Rightarrow> (Some err, w2)
          | (Inr newKey, w2) \<Rightarrow>
              (case (if SelfSigned cd then Inr (newCert, newKey)
                     else (case ch of
                             None \<Rightarrow> Inl PanicNilDereference
                           | Some h \<Rightarrow> Inr (Cert h, Key h))) of
                 Inl err \<Rightarrow> (Some err, w2)
               | Inr (parentCert, privateKey) \<Rightarrow>
                   (case CreateCertificate L w2 newCert parentCert (PublicKey newKey) privateKey of
                      (Inl err, w3) \<Rightarrow> (Some err, w3)
                    | (Inr certBytes, w3) \<Rightarrow>
                        save L cm w3 certBytes (x509_MarshalPKCS1PrivateKey L newKey) (Alias cd))))"

text \<open>
  The three operations take the descriptor by pointer and overwrite its two flags: the
  descriptor as the caller finds it afterwards is part of the result.
\<close>

definition NewRootCA ::
  "stdlib \<Rightarrow> certMgr \<Rightarrow> world \<Rightarrow> CertData \<Rightarrow> error option \<times> CertData \<times> world" where
  "NewRootCA L cm w cd =
     (case check cd [requireSubject L, requireAlias, validAtLeastYears 1] of
        Some err \<Rightarrow> (Some err, cd, w)
      | None \<Rightarrow>
          (let cd' = cd\<lparr>SelfSigned := True, CertData.IsCA := True\<rparr>
           in case create L cm w cd' of (err, w') \<Rightarrow> (err, cd', w')))"

definition NewIntermediateCA ::
  "stdlib \<Rightarrow> certMgr \<Rightarrow> world \<Rightarrow> CertData \<Rightarrow> error option \<times> CertData \<times> world" where
  "NewIntermediateCA L cm w cd =
     (case check cd [requireSubject L, requireAlias, requireParentAlias, validAtLeastYears 1] of
        Some err \<Rightarrow> (Some err, cd, w)
      | None \<Rightarrow>
          (let cd' = cd\<lparr>SelfSigned := False, CertData.IsCA := True\<rparr>
           in case create L cm w cd' of (err, w') \<Rightarrow> (err, cd', w')))"

definition NewLeaf ::
  "stdlib \<Rightarrow> certMgr \<Rightarrow> world \<Rightarrow> CertData \<Rightarrow> error option \<times> CertData \<times> world" where
  "NewLeaf L cm w cd =
     (case check cd [requireSubject L, requireAlias, requireParentAlias, validAtLeastYears 1] of
        Some err \<Rightarrow> (Some err, cd, w)
      | None \<Rightarrow>
          (let cd' = cd\<lparr>SelfSigned := False, CertData.IsCA := False\<rparr>
           in case create L cm w cd' of (err, w') \<Rightarrow> (err, cd', w')))"

section \<open>Observations and a concrete environment\<close>

text \<open>The templates handed to \<open>x509.CreateCertificate\<close>, in the order of the calls.\<close>

fun signed :: "event list \<Rightarrow> Certificate list" where
  "signed [] = []"
| "signed (EvCreateCertificate template parent # es) = template # signed es"
| "signed (e # es) = signed es"

text \<open>The file writes of a trace: path and mode.\<close>

fun writes :: "event list \<Rightarrow> (string \<times> 32 word) list" where
  "writes [] = []"
| "writes (EvWriteFile name data perm # es) = (name, perm) # writes es"
| "writes (e # es) = writes es"

text \<open>The calls of \<open>x509.CreateCertificate\<close>: template and parent, in order.\<close>

fun signings :: "event list \<Rightarrow> (Certificate \<times> Certificate) list" where
  "signings [] = []"
| "signings (EvCreateCertificate template parent # es) = (template, parent) # signings es"
| "signings (e # es) = signings es"

text \<open>
  What \<open>x509.CreateCertificate\<close> puts into the certificate it encodes: the fields of
  the template, except that the issuer is the subject of the parent argument. The
  library never reads the \<open>Issuer\<close> field of the template. \<open>issued\<close> lists the
  certificates of a trace.
\<close>

definition certificate_of :: "Certificate \<Rightarrow> Certificate \<Rightarrow> Certificate" where
  "certificate_of template parent =
     template\<lparr>Certificate.Issuer := Certificate.Subject parent\<rparr>"

definition issued :: "event list \<Rightarrow> Certificate list" where
  "issued es = map (\<lambda>(template, parent). certificate_of template parent) (signings es)"

text \<open>
  A small instance of the library, on which the model is run at concrete inputs. A name
  is rendered attribute by attribute (the zero name as the empty string, as Go does); an
  encoded block is its type, a line feed, and its bytes; a certificate's encoding is
  \<open>cert:\<close> and the common name of its subject; a key's encoding is \<open>key:\<close>.
\<close>

definition attrs :: "string \<Rightarrow> string list \<Rightarrow> string list" where
  "attrs label vals = map (\<lambda>v. label @ ''='' @ v) (filter (\<lambda>v. v \<noteq> []) vals)"

fun join :: "string \<Rightarrow> string list \<Rightarrow> string" where
  "join sep [] = []"
| "join sep [x] = x"
| "join sep (x # y # ys) = x @ sep @ join sep (y # ys)"

definition simple_Name_String :: "Name \<Rightarrow> string" where
  "simple_Name_String n =
     join '','' (attrs ''SERIALNUMBER'' [Name.SerialNumber n] @ attrs ''CN'' [CommonName n]
       @ attrs ''OU'' (OrganizationalUnit n) @ attrs ''O'' (Organization n)
       @ attrs ''POSTALCODE'' (PostalCode n) @ attrs ''STREET'' (StreetAddress n)
       @ attrs ''L'' (Locality n) @ attrs ''ST'' (Province n) @ attrs ''C'' (Country n))"

definition simple_Decode :: "bytes \<Rightarrow> Block option" where
  "simple_Decode data =
     (if CHR 0x0A \<in> set data
      then Some \<lparr>Type = takeWhile (\<lambda>c. c \<noteq> CHR 0x0A) data, Headers = [],
                 Bytes = tl (dropWhile (\<lambda>c. c \<noteq> CHR 0x0A) data)\<rparr>
      else None)"

definition simple_Encode :: "Block \<Rightarrow> string + bytes" where
  "simple_Encode b = Inr (Type b @ [CHR 0x0A] @ Bytes b)"

definition simple_ParseCertificate :: "bytes \<Rightarrow> string + Certificate" where
  "simple_ParseCertificate der =
     (if take 5 der = ''cert:''
      then Inr \<lparr>Certificate.Subject = zero_Name\<lparr>CommonName := drop 5 der\<rparr>,
                Issuer = zero_Name, NotBefore = 0, NotAfter = 0, IsCA = True,
                KeyUsage = 0, BasicConstraintsValid = True, SerialNumber = Some 0,
                ExtKeyUsage = [], DNSNames = [], IPAddresses = []\<rparr>
      else Inl ''x509: malformed certificate'')"

definition simple_ParseKey :: "bytes \<Rightarrow> string + PrivateKey" where
  "simple_ParseKey der =
     (if take 4 der = ''key:''
      then Inr \<lparr>PublicKey = \<lparr>N = 1, E = 65537\<rparr>, D = 1, Primes = []\<rparr>
      else Inl ''x509: failed to parse private key'')"

definition simple_GenerateKey :: "nat \<Rightarrow> 64 word \<Rightarrow> (string + PrivateKey) \<times> nat" where
  "simple_GenerateKey g bits =
     (if bits <s 2 then (Inl ''rsa: too few bits'', g)
      else (Inr \<lparr>PublicKey = \<lparr>N = 1, E = 65537\<rparr>, D = 1, Primes = []\<rparr>, Suc g))"

definition simple_CreateCertificate ::
  "nat \<Rightarrow> Certificate \<Rightarrow> Certificate \<Rightarrow> PublicKey \<Rightarrow> PrivateKey \<Rightarrow> (string + bytes) \<times> nat" where
  "simple_CreateCertificate g template parent pub priv =
     (Inr (''cert:'' @ CommonName (Certificate.Subject template)), Suc g)"

definition simple :: stdlib where
  "simple =
     \<lparr>pkix_Name_String = simple_Name_String,
      pem_Decode = simple_Decode,
      pem_Encode = simple_Encode,
      x509_ParseCertificate = simple_ParseCertificate,
      x509_ParsePKCS1PrivateKey = simple_ParseKey,
      x509_MarshalPKCS1PrivateKey = (\<lambda>k. ''key:''),
      time_AddDate = (\<lambda>t years months days. t + 365 * sint years),
      rsa_GenerateKey = simple_GenerateKey,
      x509_CreateCertificate = simple_CreateCertificate\<rparr>"

text \<open>
  The manager of the current directory, an empty directory, and a directory that holds
  the pair of a root authority under the alias \<open>root\<close>.
\<close>

definition here :: certMgr where
  "here = \<lparr>dir = ''.''\<rparr>"

definition empty_world :: world where
  "empty_world =
     \<lparr>files = [], fault = (\<lambda>p. None), clock = (\<lambda>n. int n), reads = 0, rng = 0, trace = []\<rparr>"

definition root_world :: world where
  "root_world =
     empty_world\<lparr>files :=
       [(''./root.pem'', ''CERTIFICATE'' @ [CHR 0x0A] @ ''cert:Root''),
        (''./root.key'', ''RSA PRIVATE KEY'' @ [CHR 0x0A] @ ''key:'')]\<rparr>"

text \<open>Descriptors as the command line builds them.\<close>

definition blank :: CertData where
  "blank =
     \<lparr>KeySize = 4096, ValidYears = 2, IPSan = [], DNSSan = [], Alias = [], ParentAlias = [],
      SelfSigned = False, IsCA = False, Issuer = zero_Name, Subject = zero_Name, Serial = 0\<rparr>"

definition named :: "string \<Rightarrow> Name" where
  "named cn = zero_Name\<lparr>CommonName := cn\<rparr>"

text \<open>The same directory, where the operating system refuses every call on the key file.\<close>

definition locked_key :: world where
  "locked_key = root_world\<lparr>fault := (\<lambda>p. if p = ''./root.key'' then Some EACCES else None)\<rparr>"

text \<open>
  A directory where the certificate file of \<open>root\<close> holds no encoded block and the
  key file is missing, and one that holds the certificate file of \<open>root\<close> only.
\<close>

definition garbled_world :: world where
  "garbled_world = empty_world\<lparr>files := [(''./root.pem'', ''garbage'')]\<rparr>"

definition cert_only_world :: world where
  "cert_only_world =
     empty_world\<lparr>files := [(''./root.pem'', ''CERTIFICATE'' @ [CHR 0x0A] @ ''cert:Root'')]\<rparr>"

text \<open>
  The requests of a root authority, of an intermediate authority and of a leaf
  certificate under it. The last two carry an issuer name of their own.
\<close>

definition root_request :: CertData where
  "root_request =
     blank\<lparr>Alias := ''root'', ValidYears := 10, CertData.Subject := named ''Root'',
            CertData.Issuer := named ''Root'', Serial := 7\<rparr>"

definition im_request :: CertData where
  "im_request =
     blank\<lparr>Alias := ''im'', ParentAlias := ''root'', ValidYears := 5,
            CertData.Subject := named ''Im'', CertData.Issuer := named ''Somebody''\<rparr>"

definition leaf_request :: CertData where
  "leaf_request =
     blank\<lparr>Alias := ''srv'', ParentAlias := ''root'', CertData.Subject := named ''srv'',
            CertData.Issuer := named ''Somebody'', DNSSan := [''srv.example.com'']\<rparr>"

text \<open>The request of a root authority whose issuer name differs from its subject.\<close>

definition odd_root_request :: CertData where
  "odd_root_request = root_request\<lparr>CertData.Issuer := named ''Somebody''\<rparr>"


section \<open>Properties of the validation rules\<close>

lemma check_order3:
  "check cd [c1, c2, c3] =
     (case c1 cd of Some e \<Rightarrow> Some e | None \<Rightarrow>
        (case c2 cd of Some e \<Rightarrow> Some e | None \<Rightarrow> c3 cd))"
  by (simp split: option.splits)

lemma check_order4:
  "check cd [c1, c2, c3, c4] =
     (case c1 cd of Some e \<Rightarrow> Some e | None \<Rightarrow>
        (case c2 cd of Some e \<Rightarrow> Some e | None \<Rightarrow>
           (case c3 cd of Some e \<Rightarrow> Some e | None \<Rightarrow> c4 cd)))"
  by (simp split: option.splits)

text \<open>
  Claim C10. The three operations run their rules in the order subject, alias, parent
  alias (the root authority has none), years, and return the first error without
  touching the descriptor or the world; only when every rule passes do they set the two
  flags and call \<open>create\<close>. Consequently a descriptor whose subject renders to the
  empty string and whose alias is empty gets the subject-missing error from all three.
\<close>

theorem validation_order:
  "NewRootCA L cm w cd =
     (if pkix_Name_String L (CertData.Subject cd) = [] then (Some ErrSubjectMissing, cd, w)
      else if Alias cd = [] then (Some ErrAliasMissing, cd, w)
      else if ValidYears cd <s 1 then (Some (ErrInvalidValidYears (ValidYears cd) 1), cd, w)
      else (fst (create L cm w (cd\<lparr>SelfSigned := True, CertData.IsCA := True\<rparr>)),
            cd\<lparr>SelfSigned := True, CertData.IsCA := True\<rparr>,
            snd (create L cm w (cd\<lparr>SelfSigned := True, CertData.IsCA := True\<rparr>))))
   \<and> NewIntermediateCA L cm w cd =
     (if pkix_Name_String L (CertData.Subject cd) = [] then (Some ErrSubjectMissing, cd, w)
      else if Alias cd = [] then (Some ErrAliasMissing, cd, w)
      else if ParentAlias cd = [] then (Some ErrParentAliasMissing, cd, w)
      else if ValidYears cd <s 1 then (Some (ErrInvalidValidYears (ValidYears cd) 1), cd, w)
      else (fst (create L cm w (cd\<lparr>SelfSigned := False, CertData.IsCA := True\<rparr>)),
            cd\<lparr>SelfSigned := False, CertData.IsCA := True\<rparr>,
            snd (create L cm w (cd\<lparr>SelfSigned := False, CertData.IsCA := True\<rparr>))))
   \<and> NewLeaf L cm w cd =
     (if pkix_Name_String L (CertData.Subject cd) = [] then (Some ErrSubjectMissing, cd, w)
      else if Alias cd = [] then (Some ErrAliasMissing, cd, w)
      else if ParentAlias cd = [] then (Some ErrParentAliasMissing, cd, w)
      else if ValidYears cd <s 1 then (Some (ErrInvalidValidYears (ValidYears cd) 1), cd, w)
      else (fst (create L cm w (cd\<lparr>SelfSigned := False, CertData.IsCA := False\<rparr>)),
            cd\<lparr>SelfSigned := False, CertData.IsCA := False\<rparr>,
            snd (create L cm w (cd\<lparr>SelfSigned := False, CertData.IsCA := False\<rparr>))))
   \<and> (pkix_Name_String L (CertData.Subject cd) = [] \<and> Alias cd = [] \<longrightarrow>
        fst (NewRootCA L cm w cd) = Some ErrSubjectMissing
      \<and> fst (NewIntermediateCA L cm w cd) = Some ErrSubjectMissing
      \<and> fst (NewLeaf L cm w cd) = Some ErrSubjectMissing)"
  by (simp add: NewRootCA_def NewIntermediateCA_def NewLeaf_def check_order3 check_order4
      requireSubject_def requireAlias_def requireParentAlias_def validAtLeastYears_def
      Let_def split: prod.splits)

lemma simple_zero: "pkix_Name_String simple zero_Name = []"
  by (simp add: simple_def simple_Name_String_def zero_Name_def attrs_def)

theorem validation_order_witness:
  "pkix_Name_String simple (CertData.Subject blank) = [] \<and> Alias blank = []
   \<and> fst (NewRootCA simple here empty_world blank) = Some ErrSubjectMissing
   \<and> fst (NewIntermediateCA simple here empty_world blank) = Some ErrSubjectMissing
   \<and> fst (NewLeaf simple here empty_world blank) = Some ErrSubjectMissing"
  using validation_order [of simple here empty_world blank]
  by (simp add: blank_def simple_zero)

text \<open>
  Claim C3, as stated, fails: the blank descriptor (the one of the leaf command without
  flags) has an empty alias and the zero subject, which renders to the empty string, and
  \<open>NewLeaf\<close> answers with the subject-missing error, since the subject rule runs first.
\<close>

theorem empty_alias_counterexample:
  "Alias blank = []
   \<and> fst (NewLeaf simple here empty_world blank) = Some ErrSubjectMissing
   \<and> fst (NewLeaf simple here empty_world blank) \<noteq> Some ErrAliasMissing"
  by (simp add: NewLeaf_def requireSubject_def blank_def simple_zero)

text \<open>
  Claim C3, amended. For every descriptor with an empty alias \<open>NewLeaf\<close> returns a
  missing-field error, the alias-missing one when the subject renders to a non-empty
  string and the subject-missing one otherwise, and leaves the descriptor and the whole
  world as they were: no file is written, no key generated, nothing signed, the clock
  not read.
\<close>

theorem empty_alias_fails_fast:
  "Alias cd = [] \<Longrightarrow>
   NewLeaf L cm w cd =
     (Some (if pkix_Name_String L (CertData.Subject cd) = [] then ErrSubjectMissing
            else ErrAliasMissing), cd, w)"
  by (simp add: NewLeaf_def requireSubject_def requireAlias_def)

theorem empty_alias_fails_fast_witness:
  "Alias (blank\<lparr>CertData.Subject := named ''srv''\<rparr>) = []
   \<and> NewLeaf simple here root_world (blank\<lparr>CertData.Subject := named ''srv''\<rparr>) =
       (Some ErrAliasMissing, blank\<lparr>CertData.Subject := named ''srv''\<rparr>, root_world)"
  using empty_alias_fails_fast [of "blank\<lparr>CertData.Subject := named ''srv''\<rparr>" simple here root_world]
  by (simp add: blank_def simple_def simple_Name_String_def named_def zero_Name_def attrs_def)

section \<open>Properties of the alias storage\<close>

text \<open>
  Claim C9. \<open>doesAliasFileExist\<close> returns false exactly when the \<open>stat\<close> of the
  alias's path fails with a not-found error; it returns true when the \<open>stat\<close>
  succeeds and also when it fails with any other error.
\<close>

theorem exists_collapses:
  "(fst (doesAliasFileExist cm w alias private) = False \<longleftrightarrow>
      (\<exists>err. fst (os_Stat w (aliasToFile cm alias private)) = Some err \<and> os_IsNotExist err))
   \<and> (fst (os_Stat w (aliasToFile cm alias private)) = None \<longrightarrow>
        fst (doesAliasFileExist cm w alias private) = True)
   \<and> (\<forall>err. fst (os_Stat w (aliasToFile cm alias private)) = Some err \<and> \<not> os_IsNotExist err \<longrightarrow>
        fst (doesAliasFileExist cm w alias private) = True)"
  by (auto simp: doesAliasFileExist_def split: prod.splits option.splits)

lemma os_Remove_fst:
  "fst (os_Remove w name) =
     (case fault w name of
        Some e \<Rightarrow> Some (PathError ''remove'' name e)
      | None \<Rightarrow> (case map_of (files w) name of
                   None \<Rightarrow> Some (PathError ''remove'' name ENOENT)
                 | Some data \<Rightarrow> None))"
  by (simp add: os_Remove_def split: option.splits)

lemma os_Remove_fault [simp]: "fault (snd (os_Remove w name)) = fault w"
  by (simp add: os_Remove_def emit_def split: option.splits)

lemma os_Remove_files:
  "map_of (files (snd (os_Remove w name))) =
     (if fault w name = None then (map_of (files w))(name := None) else map_of (files w))"
  by (auto simp: os_Remove_def emit_def delete_conv' split: option.splits)

lemma key_not_cert [simp]: "aliasToFile cm alias True \<noteq> aliasToFile cm alias False"
  by (simp add: aliasToFile_def)

lemma Delete_fst:
  "fst (Delete cm w alias) =
     (case fst (os_Remove w (aliasToFile cm alias True)) of
        None \<Rightarrow>
          (case fst (os_Remove (snd (os_Remove w (aliasToFile cm alias True)))
                      (aliasToFile cm alias False)) of
             None \<Rightarrow> None
           | Some e \<Rightarrow> if os_IsNotExist e then None else Some e)
      | Some e \<Rightarrow>
          if os_IsNotExist e
          then (case fst (os_Remove (snd (os_Remove w (aliasToFile cm alias True)))
                           (aliasToFile cm alias False)) of
                  None \<Rightarrow> None
                | Some e \<Rightarrow> if os_IsNotExist e then None else Some e)
          else Some e)"
  by (simp add: Delete_def split_beta split: option.splits)

lemma Delete_snd:
  "snd (Delete cm w alias) =
     (case fst (os_Remove w (aliasToFile cm alias True)) of
        None \<Rightarrow> snd (os_Remove (snd (os_Remove w (aliasToFile cm alias True)))
                      (aliasToFile cm alias False))
      | Some e \<Rightarrow>
          if os_IsNotExist e
          then snd (os_Remove (snd (os_Remove w (aliasToFile cm alias True)))
                           (aliasToFile cm alias False))
          else snd (os_Remove w (aliasToFile cm alias True)))"
  by (simp add: Delete_def split_beta split: option.splits)

lemma Delete_twice:
  assumes "fst (Delete cm w alias) = None"
  shows "fst (Delete cm (snd (Delete cm w alias)) alias) = None"
proof -
  let ?K = "aliasToFile cm alias True" and ?C = "aliasToFile cm alias False"
  let ?w1 = "snd (os_Remove w ?K)"
  let ?w2 = "snd (os_Remove ?w1 ?C)"
  from assms have k: "fault w ?K = None \<or> fault w ?K = Some ENOENT"
    by (auto simp: Delete_fst os_Remove_fst split: option.splits if_splits)
  from assms have c: "fault w ?C = None \<or> fault w ?C = Some ENOENT"
    by (auto simp: Delete_fst os_Remove_fst split: option.splits if_splits)
  from assms have w2: "snd (Delete cm w alias) = ?w2"
    by (auto simp: Delete_fst Delete_snd split: option.splits if_splits)
  have fk: "fault w ?K = None \<Longrightarrow> map_of (files ?w2) ?K = None"
    by (simp add: os_Remove_files)
  have fc: "fault w ?C = None \<Longrightarrow> map_of (files ?w2) ?C = None"
    by (simp add: os_Remove_files)
  have 1: "fst (os_Remove ?w2 ?K) = Some (PathError ''remove'' ?K ENOENT)"
    using k fk by (auto simp: os_Remove_fst)
  have fc': "fault w ?C = None \<Longrightarrow> map_of (files (snd (os_Remove ?w2 ?K))) ?C = None"
    using fc by (simp add: os_Remove_files)
  have 2: "fst (os_Remove (snd (os_Remove ?w2 ?K)) ?C) = Some (PathError ''remove'' ?C ENOENT)"
    using c fc' by (auto simp: os_Remove_fst)
  show ?thesis
    unfolding w2 by (simp add: Delete_fst 1 2)
qed

text \<open>
  Claim C6. \<open>Delete\<close> removes the key file, then the certificate file. It returns no
  error exactly when each removal succeeds or fails with a not-found error; then a second
  \<open>Delete\<close> of the same alias returns no error either, and so does the \<open>Delete\<close> of
  an alias that has no file (which changes no file). A removal that fails otherwise is
  returned at once: for the key file before the certificate file is touched, for the
  certificate file although the key file is already gone.
\<close>

theorem Delete_tolerates_absence:
  "(fst (Delete cm w alias) = None \<longleftrightarrow>
      (\<forall>e. fst (os_Remove w (aliasToFile cm alias True)) = Some e \<longrightarrow> os_IsNotExist e)
    \<and> (\<forall>e. fst (os_Remove (snd (os_Remove w (aliasToFile cm alias True)))
                 (aliasToFile cm alias False)) = Some e \<longrightarrow> os_IsNotExist e))
   \<and> (fst (Delete cm w alias) = None \<longrightarrow>
        fst (Delete cm (snd (Delete cm w alias)) alias) = None)
   \<and> (fault w (aliasToFile cm alias True) = None \<and> fault w (aliasToFile cm alias False) = None
      \<and> map_of (files w) (aliasToFile cm alias True) = None
      \<and> map_of (files w) (aliasToFile cm alias False) = None \<longrightarrow>
        fst (Delete cm w alias) = None \<and> files (snd (Delete cm w alias)) = files w)
   \<and> (\<forall>e. fst (os_Remove w (aliasToFile cm alias True)) = Some e \<and> \<not> os_IsNotExist e \<longrightarrow>
        Delete cm w alias = (Some e, emit (EvRemove (aliasToFile cm alias True)) w))
   \<and> (\<forall>e. fst (os_Remove w (aliasToFile cm alias True)) = None
          \<and> fst (os_Remove (snd (os_Remove w (aliasToFile cm alias True)))
                 (aliasToFile cm alias False)) = Some e \<and> \<not> os_IsNotExist e \<longrightarrow>
        fst (Delete cm w alias) = Some e
      \<and> map_of (files (snd (Delete cm w alias))) (aliasToFile cm alias True) = None)"
proof (intro conjI)
  show "fst (Delete cm w alias) = None \<longleftrightarrow>
      (\<forall>e. fst (os_Remove w (aliasToFile cm alias True)) = Some e \<longrightarrow> os_IsNotExist e)
    \<and> (\<forall>e. fst (os_Remove (snd (os_Remove w (aliasToFile cm alias True)))
                 (aliasToFile cm alias False)) = Some e \<longrightarrow> os_IsNotExist e)"
    by (auto simp: Delete_fst split: option.splits if_splits)
next
  show "fst (Delete cm w alias) = None \<longrightarrow>
        fst (Delete cm (snd (Delete cm w alias)) alias) = None"
    using Delete_twice by blast
next
  show "fault w (aliasToFile cm alias True) = None \<and> fault w (aliasToFile cm alias False) = None
      \<and> map_of (files w) (aliasToFile cm alias True) = None
      \<and> map_of (files w) (aliasToFile cm alias False) = None \<longrightarrow>
        fst (Delete cm w alias) = None \<and> files (snd (Delete cm w alias)) = files w"
    by (simp add: Delete_def os_Remove_def emit_def)
next
  show "\<forall>e. fst (os_Remove w (aliasToFile cm alias True)) = Some e \<and> \<not> os_IsNotExist e \<longrightarrow>
        Delete cm w alias = (Some e, emit (EvRemove (aliasToFile cm alias True)) w)"
    by (auto simp: Delete_def split_beta os_Remove_def split: option.splits)
next
  show "\<forall>e. fst (os_Remove w (aliasToFile cm alias True)) = None
          \<and> fst (os_Remove (snd (os_Remove w (aliasToFile cm alias True)))
                 (aliasToFile cm alias False)) = Some e \<and> \<not> os_IsNotExist e \<longrightarrow>
        fst (Delete cm w alias) = Some e
      \<and> map_of (files (snd (Delete cm w alias))) (aliasToFile cm alias True) = None"
    by (auto simp: Delete_fst Delete_snd os_Remove_files os_Remove_fst split: option.splits if_splits)
qed



lemmas eval_world = here_def root_world_def empty_world_def locked_key_def aliasToFile_def
  os_Remove_def os_Stat_def emit_def

theorem Delete_tolerates_absence_witness:
  "fst (Delete here root_world ''root'') = None
   \<and> fst (Delete here (snd (Delete here root_world ''root'')) ''root'') = None
   \<and> fst (Delete here empty_world ''ghost'') = None
   \<and> files (snd (Delete here empty_world ''ghost'')) = files empty_world
   \<and> \<not> os_IsNotExist (PathError ''remove'' ''./root.key'' EACCES)
   \<and> Delete here locked_key ''root'' =
       (Some (PathError ''remove'' ''./root.key'' EACCES), emit (EvRemove ''./root.key'') locked_key)"
  using Delete_tolerates_absence [of here root_world "''root''"]
    Delete_tolerates_absence [of here empty_world "''ghost''"]
    Delete_tolerates_absence [of here locked_key "''root''"]
  by (simp add: eval_world)

theorem exists_collapses_witness:
  "fst (os_Stat root_world (aliasToFile here ''root'' True)) = None
   \<and> fst (doesAliasFileExist here root_world ''root'' True) = True
   \<and> fst (os_Stat locked_key (aliasToFile here ''root'' True)) = Some (PathError ''stat'' ''./root.key'' EACCES)
   \<and> fst (doesAliasFileExist here locked_key ''root'' True) = True
   \<and> fst (os_Stat empty_world (aliasToFile here ''root'' True)) = Some (PathError ''stat'' ''./root.key'' ENOENT)
   \<and> fst (doesAliasFileExist here empty_world ''root'' True) = False"
  using exists_collapses [of here root_world "''root''" True]
    exists_collapses [of here locked_key "''root''" True]
    exists_collapses [of here empty_world "''root''" True]
  by (simp add: eval_world)

lemma uniq_loop_sound:
  "distinct result \<Longrightarrow> set result = set seen \<Longrightarrow>
   distinct (uniq_loop seen result xs) \<and> set (uniq_loop seen result xs) = set result \<union> set xs"
proof (induction xs arbitrary: seen result)
  case Nil
  then show ?case by simp
next
  case (Cons x xs)
  show ?case
  proof (cases "x \<in> set seen")
    case True
    with Cons.IH [of result seen] Cons.prems show ?thesis by auto
  next
    case False
    with Cons.IH [of "result @ [x]" "x # seen"] Cons.prems show ?thesis by auto
  qed
qed

lemma lo_Uniq_sound: "distinct (lo_Uniq xs) \<and> set (lo_Uniq xs) = set xs"
  using uniq_loop_sound [of "[]" "[]" xs] by (simp add: lo_Uniq_def)

lemma lo_Map_fileToAlias:
  "\<forall>f \<in> set fs. 4 \<le> length f \<Longrightarrow>
   lo_Map (fileToAlias cm) fs = Inr (map (\<lambda>f. take (length f - 4) f) fs)"
  by (induction fs) (simp_all add: fileToAlias_def)

lemma HasSuffix_iff: "strings_HasSuffix s suffix \<longleftrightarrow> (\<exists>a. s = a @ suffix)"
proof
  assume "strings_HasSuffix s suffix"
  then have "s = take (length s - length suffix) s @ suffix"
    by (metis append_take_drop_id strings_HasSuffix_def)
  then show "\<exists>a. s = a @ suffix" ..
next
  assume "\<exists>a. s = a @ suffix"
  then show "strings_HasSuffix s suffix"
    by (auto simp: strings_HasSuffix_def)
qed

lemma isAliasFilename_iff:
  "isAliasFilename cm f \<longleftrightarrow> (\<exists>a. f = a @ ''.pem'' \<or> f = a @ ''.key'')"
  by (auto simp: isAliasFilename_def HasSuffix_iff)

lemma isAliasFilename_length: "isAliasFilename cm f \<Longrightarrow> 4 \<le> length f"
  by (auto simp: isAliasFilename_iff)

lemma stripped_set:
  "(\<lambda>f. take (length f - 4) f) ` {f \<in> set entries. isAliasFilename cm f} =
     {a. a @ ''.pem'' \<in> set entries \<or> a @ ''.key'' \<in> set entries}"
proof (rule set_eqI)
  fix a
  show "a \<in> (\<lambda>f. take (length f - 4) f) ` {f \<in> set entries. isAliasFilename cm f} \<longleftrightarrow>
        a \<in> {a. a @ ''.pem'' \<in> set entries \<or> a @ ''.key'' \<in> set entries}"
  proof
    assume "a \<in> (\<lambda>f. take (length f - 4) f) ` {f \<in> set entries. isAliasFilename cm f}"
    then obtain f where f: "f \<in> set entries" "isAliasFilename cm f" "a = take (length f - 4) f"
      by auto
    from f(2) obtain b where "f = b @ ''.pem'' \<or> f = b @ ''.key''"
      by (auto simp: isAliasFilename_iff)
    with f show "a \<in> {a. a @ ''.pem'' \<in> set entries \<or> a @ ''.key'' \<in> set entries}"
      by auto
  next
    assume "a \<in> {a. a @ ''.pem'' \<in> set entries \<or> a @ ''.key'' \<in> set entries}"
    then consider "a @ ''.pem'' \<in> set entries" | "a @ ''.key'' \<in> set entries" by auto
    then show "a \<in> (\<lambda>f. take (length f - 4) f) ` {f \<in> set entries. isAliasFilename cm f}"
    proof cases
      case 1
      then have "a @ ''.pem'' \<in> {f \<in> set entries. isAliasFilename cm f}"
        by (auto simp: isAliasFilename_iff)
      then show ?thesis by (rule rev_image_eqI) simp
    next
      case 2
      then have "a @ ''.key'' \<in> {f \<in> set entries. isAliasFilename cm f}"
        by (auto simp: isAliasFilename_iff)
      then show ?thesis by (rule rev_image_eqI) simp
    qed
  qed
qed

text \<open>
  Claim C7. When the directory can be read, \<open>List\<close> returns a list without
  duplicates whose elements are exactly the names \<open>a\<close> for which \<open>a.pem\<close> or
  \<open>a.key\<close> is an entry of the directory: an alias with both files appears once.
\<close>

theorem List_aliases:
  assumes "fst (os_ReadDir w (dir cm)) = Inr entries"
  shows "\<exists>aliases. fst (List cm w) = Inr aliases \<and> distinct aliases
     \<and> set aliases = {a. a @ ''.pem'' \<in> set entries \<or> a @ ''.key'' \<in> set entries}"
proof -
  let ?fs = "lo_Filter (isAliasFilename cm) entries"
  have m: "lo_Map (fileToAlias cm) ?fs = Inr (map (\<lambda>f. take (length f - 4) f) ?fs)"
    by (rule lo_Map_fileToAlias) (auto simp: lo_Filter_def dest: isAliasFilename_length)
  have l: "fst (List cm w) = Inr (lo_Uniq (map (\<lambda>f. take (length f - 4) f) ?fs))"
    using assms m by (simp add: List_def split_beta split: sum.splits)
  have s: "set (map (\<lambda>f. take (length f - 4) f) ?fs) =
      {a. a @ ''.pem'' \<in> set entries \<or> a @ ''.key'' \<in> set entries}"
    using stripped_set [of entries cm] by (simp add: lo_Filter_def)
  show ?thesis
    using l s lo_Uniq_sound [of "map (\<lambda>f. take (length f - 4) f) ?fs"] by simp
qed

lemma ReadDir_root:
  "fst (os_ReadDir root_world (dir here)) = Inr [''root.key'', ''root.pem'']"
  by (simp add: os_ReadDir_def eval_world entry_below_def)

lemma List_root: "fst (List here root_world) = Inr [''root'']"
  by (simp add: List_def split_beta ReadDir_root lo_Filter_def isAliasFilename_def strings_HasSuffix_def
    fileToAlias_def lo_Uniq_def)

theorem List_aliases_witness:
  "fst (os_ReadDir root_world (dir here)) = Inr [''root.key'', ''root.pem'']
   \<and> fst (List here root_world) = Inr [''root'']
   \<and> (\<exists>aliases. fst (List here root_world) = Inr aliases \<and> distinct aliases
        \<and> set aliases = {a. a @ ''.pem'' \<in> set [''root.key'', ''root.pem'']
                           \<or> a @ ''.key'' \<in> set [''root.key'', ''root.pem'']})"
  using List_aliases [OF ReadDir_root] ReadDir_root List_root by simp

section \<open>Properties of loading and saving\<close>

lemma os_ReadFile_emit [simp]:
  "fst (os_ReadFile (emit e w) name) = fst (os_ReadFile w name)"
  by (simp add: os_ReadFile_def emit_def split: option.splits)

lemma os_ReadFile_snd [simp]: "snd (os_ReadFile w name) = emit (EvReadFile name) w"
  by (simp add: os_ReadFile_def)

lemma load_fst:
  "fst (load L cm w alias) =
     (case fst (os_ReadFile w (dir cm @ ''/'' @ alias @ ''.pem'')) of
        Inl err \<Rightarrow> Inl err
      | Inr data \<Rightarrow>
          (case pem_Decode L data of
             None \<Rightarrow> Inl (ErrCantLoadCertificate (dir cm @ ''/'' @ alias @ ''.pem''))
           | Some block \<Rightarrow>
               if Type block \<noteq> typeCert
               then Inl (ErrCantLoadCertificate (dir cm @ ''/'' @ alias @ ''.pem''))
               else
                 (case x509_ParseCertificate L (Bytes block) of
                    Inl m \<Rightarrow> Inl (LibraryError m)
                  | Inr cert \<Rightarrow>
                      (case fst (os_ReadFile w (dir cm @ ''/'' @ alias @ ''.key'')) of
                         Inl err \<Rightarrow> Inl err
                       | Inr data \<Rightarrow>
                           (case pem_Decode L data of
                              None \<Rightarrow> Inl (ErrCantLoadPrivateKey (dir cm @ ''/'' @ alias @ ''.key''))
                            | Some block \<Rightarrow>
                                if Type block \<noteq> typeRsaPrivateKey
                                then Inl (ErrCantLoadPrivateKey (dir cm @ ''/'' @ alias @ ''.key''))
                                else
                                  (case x509_ParsePKCS1PrivateKey L (Bytes block) of
                                     Inl m \<Rightarrow> Inl (LibraryError m)
                                   | Inr pKey \<Rightarrow> Inr \<lparr>Cert = cert, Key = pKey\<rparr>))))))"
  by (simp add: load_def Let_def split_beta split: sum.splits option.splits)

lemma os_ReadFile_missing:
  "fault w name = None \<Longrightarrow> map_of (files w) name = None \<Longrightarrow>
   fst (os_ReadFile w name) = Inl (PathError ''open'' name ENOENT)"
  by (simp add: os_ReadFile_def)

text \<open>
  Claim C5, amended. \<open>load\<close> (and \<open>Get\<close>, which is \<open>load\<close>) checks in this order:
  reading the certificate file, its block (present, of type \<open>CERTIFICATE\<close>), parsing
  its bytes, reading the key file, its block (present, of type \<open>RSA PRIVATE KEY\<close>),
  parsing its bytes. It returns the error of the first check that fails: the error of
  the read as it is (the not-found error of a missing file), the format error of that
  file, the parse error of the library. It returns the pair exactly when all six
  checks pass, and then the pair holds the parsed certificate and key.
\<close>

theorem load_checks:
  "(\<forall>e. fst (os_ReadFile w (dir cm @ ''/'' @ alias @ ''.pem'')) = Inl e \<longrightarrow>
        fst (load L cm w alias) = Inl e)
   \<and> (fault w (dir cm @ ''/'' @ alias @ ''.pem'') = None
      \<and> map_of (files w) (dir cm @ ''/'' @ alias @ ''.pem'') = None \<longrightarrow>
        fst (load L cm w alias) = Inl (PathError ''open'' (dir cm @ ''/'' @ alias @ ''.pem'') ENOENT))
   \<and> (\<forall>data. fst (os_ReadFile w (dir cm @ ''/'' @ alias @ ''.pem'')) = Inr data
          \<and> (\<forall>b. pem_Decode L data = Some b \<longrightarrow> Type b \<noteq> typeCert) \<longrightarrow>
        fst (load L cm w alias) = Inl (ErrCantLoadCertificate (dir cm @ ''/'' @ alias @ ''.pem'')))
   \<and> (\<forall>data b m. fst (os_ReadFile w (dir cm @ ''/'' @ alias @ ''.pem'')) = Inr data
          \<and> pem_Decode L data = Some b \<and> Type b = typeCert
          \<and> x509_ParseCertificate L (Bytes b) = Inl m \<longrightarrow>
        fst (load L cm w alias) = Inl (LibraryError m))
   \<and> (\<forall>data b cert. fst (os_ReadFile w (dir cm @ ''/'' @ alias @ ''.pem'')) = Inr data
          \<and> pem_Decode L data = Some b \<and> Type b = typeCert
          \<and> x509_ParseCertificate L (Bytes b) = Inr cert \<longrightarrow>
        (\<forall>e. fst (os_ReadFile w (dir cm @ ''/'' @ alias @ ''.key'')) = Inl e \<longrightarrow>
           fst (load L cm w alias) = Inl e)
      \<and> (fault w (dir cm @ ''/'' @ alias @ ''.key'') = None
         \<and> map_of (files w) (dir cm @ ''/'' @ alias @ ''.key'') = None \<longrightarrow>
           fst (load L cm w alias) =
             Inl (PathError ''open'' (dir cm @ ''/'' @ alias @ ''.key'') ENOENT))
      \<and> (\<forall>kdata. fst (os_ReadFile w (dir cm @ ''/'' @ alias @ ''.key'')) = Inr kdata
             \<and> (\<forall>kb. pem_Decode L kdata = Some kb \<longrightarrow> Type kb \<noteq> typeRsaPrivateKey) \<longrightarrow>
           fst (load L cm w alias) =
             Inl (ErrCantLoadPrivateKey (dir cm @ ''/'' @ alias @ ''.key'')))
      \<and> (\<forall>kdata kb m. fst (os_ReadFile w (dir cm @ ''/'' @ alias @ ''.key'')) = Inr kdata
             \<and> pem_Decode L kdata = Some kb \<and> Type kb = typeRsaPrivateKey
             \<and> x509_ParsePKCS1PrivateKey L (Bytes kb) = Inl m \<longrightarrow>
           fst (load L cm w alias) = Inl (LibraryError m))
      \<and> (\<forall>kdata kb pKey. fst (os_ReadFile w (dir cm @ ''/'' @ alias @ ''.key'')) = Inr kdata
             \<and> pem_Decode L kdata = Some kb \<and> Type kb = typeRsaPrivateKey
             \<and> x509_ParsePKCS1PrivateKey L (Bytes kb) = Inr pKey \<longrightarrow>
           fst (load L cm w alias) = Inr \<lparr>Cert = cert, Key = pKey\<rparr>))
   \<and> (\<forall>ph. fst (load L cm w alias) = Inr ph \<longrightarrow>
        (\<exists>data b kdata kb.
            fst (os_ReadFile w (dir cm @ ''/'' @ alias @ ''.pem'')) = Inr data
          \<and> pem_Decode L data = Some b \<and> Type b = typeCert
          \<and> x509_ParseCertificate L (Bytes b) = Inr (Cert ph)
          \<and> fst (os_ReadFile w (dir cm @ ''/'' @ alias @ ''.key'')) = Inr kdata
          \<and> pem_Decode L kdata = Some kb \<and> Type kb = typeRsaPrivateKey
          \<and> x509_ParsePKCS1PrivateKey L (Bytes kb) = Inr (Key ph)))
   \<and> Get L cm w alias = load L cm w alias"
proof (intro conjI allI impI)
  fix ph
  assume "fst (load L cm w alias) = Inr ph"
  then show "\<exists>data b kdata kb.
            fst (os_ReadFile w (dir cm @ ''/'' @ alias @ ''.pem'')) = Inr data
          \<and> pem_Decode L data = Some b \<and> Type b = typeCert
          \<and> x509_ParseCertificate L (Bytes b) = Inr (Cert ph)
          \<and> fst (os_ReadFile w (dir cm @ ''/'' @ alias @ ''.key'')) = Inr kdata
          \<and> pem_Decode L kdata = Some kb \<and> Type kb = typeRsaPrivateKey
          \<and> x509_ParsePKCS1PrivateKey L (Bytes kb) = Inr (Key ph)"
    unfolding load_fst by (auto split: sum.splits option.splits if_splits)
qed (auto simp: load_fst Get_def os_ReadFile_missing split: option.splits)

lemma signed_append [simp]: "signed (xs @ ys) = signed xs @ signed ys"
  by (induction xs rule: signed.induct) simp_all

lemma writes_append [simp]: "writes (xs @ ys) = writes xs @ writes ys"
  by (induction xs rule: writes.induct) simp_all

lemma time_Now_trace [simp]: "trace (snd (time_Now w)) = trace w"
  and time_Now_files [simp]: "files (snd (time_Now w)) = files w"
  and time_Now_fault [simp]: "fault (snd (time_Now w)) = fault w"
  by (simp_all add: time_Now_def)

lemma os_ReadFile_fst_cong:
  "files w = files w' \<Longrightarrow> fault w = fault w' \<Longrightarrow>
   fst (os_ReadFile w name) = fst (os_ReadFile w' name)"
  by (simp add: os_ReadFile_def split: option.splits)

lemma load_fst_cong:
  "files w = files w' \<Longrightarrow> fault w = fault w' \<Longrightarrow>
   fst (load L cm w alias) = fst (load L cm w' alias)"
  by (simp only: load_fst os_ReadFile_fst_cong [of w w'])

lemma load_signed [simp]: "signed (trace (snd (load L cm w alias))) = signed (trace w)"
  by (simp add: load_def Let_def split_beta emit_def split: sum.splits option.splits)

lemma GenerateKey_signed [simp]:
  "signed (trace (snd (GenerateKey L w bits))) = signed (trace w)"
  by (simp add: GenerateKey_def split_beta emit_def)

lemma CreateCertificate_signed [simp]:
  "signed (trace (snd (CreateCertificate L w template parent pub priv))) =
     signed (trace w) @ [template]"
  by (simp add: CreateCertificate_def split_beta emit_def)

lemma os_WriteFile_signed [simp]:
  "signed (trace (snd (os_WriteFile w name data perm))) = signed (trace w)"
  by (simp add: os_WriteFile_def emit_def split: option.splits)

lemma save_signed [simp]:
  "signed (trace (snd (save L cm w cert key alias))) = signed (trace w)"
  by (simp add: save_def split_beta split: sum.splits option.splits)


section \<open>Properties of the issuance\<close>

lemma load_after_clock:
  "fst (load L cm (snd (time_Now (snd (time_Now w)))) alias) = fst (load L cm w alias)"
  by (rule load_fst_cong) simp_all

lemma create_signs:
  assumes "fst (create L cm w cd) = None"
  shows "\<exists>t. signed (trace (snd (create L cm w cd))) = signed (trace w) @ [t]
     \<and> Certificate.Subject t = CertData.Subject cd
     \<and> (if SelfSigned cd then Certificate.Issuer t = CertData.Issuer cd
         else (\<exists>ch. fst (load L cm w (ParentAlias cd)) = Inr ch
                \<and> Certificate.Issuer t = Certificate.Subject (Cert ch)))
     \<and> Certificate.IsCA t = CertData.IsCA cd
     \<and> BasicConstraintsValid t
     \<and> KeyUsage t = getKeyUsage cd
     \<and> Certificate.SerialNumber t = Some (if Serial cd \<noteq> 0 then sint (Serial cd) else 0)
     \<and> ExtKeyUsage t =
         (if CertData.IsCA cd then [] else [ExtKeyUsageClientAuth, ExtKeyUsageServerAuth])
     \<and> DNSNames t = (if CertData.IsCA cd then [] else DNSSan cd)
     \<and> IPAddresses t = (if CertData.IsCA cd then [] else IPSan cd)"
proof (cases "SelfSigned cd"; cases "CertData.IsCA cd"; cases "Serial cd = 0")
qed (use assms in \<open>auto simp: create_def split_beta Let_def load_after_clock
      split: sum.splits option.splits\<close>)

lemma NewRootCA_success:
  "fst (NewRootCA L cm w cd) = None \<Longrightarrow>
     fst (create L cm w (cd\<lparr>SelfSigned := True, CertData.IsCA := True\<rparr>)) = None
   \<and> snd (snd (NewRootCA L cm w cd)) =
       snd (create L cm w (cd\<lparr>SelfSigned := True, CertData.IsCA := True\<rparr>))"
  by (simp add: NewRootCA_def Let_def split_beta split: option.splits)

lemma NewIntermediateCA_success:
  "fst (NewIntermediateCA L cm w cd) = None \<Longrightarrow>
     fst (create L cm w (cd\<lparr>SelfSigned := False, CertData.IsCA := True\<rparr>)) = None
   \<and> snd (snd (NewIntermediateCA L cm w cd)) =
       snd (create L cm w (cd\<lparr>SelfSigned := False, CertData.IsCA := True\<rparr>))
   \<and> ParentAlias cd \<noteq> []"
  by (simp add: NewIntermediateCA_def Let_def split_beta check_order4 requireParentAlias_def
      split: option.splits if_splits)

lemma NewLeaf_success:
  "fst (NewLeaf L cm w cd) = None \<Longrightarrow>
     fst (create L cm w (cd\<lparr>SelfSigned := False, CertData.IsCA := False\<rparr>)) = None
   \<and> snd (snd (NewLeaf L cm w cd)) =
       snd (create L cm w (cd\<lparr>SelfSigned := False, CertData.IsCA := False\<rparr>))
   \<and> ParentAlias cd \<noteq> []"
  by (simp add: NewLeaf_def Let_def split_beta check_order4 requireParentAlias_def
      split: option.splits if_splits)

lemma check_ignores_Issuer:
  "check (cd\<lparr>CertData.Issuer := i\<rparr>) [requireSubject L, requireAlias, requireParentAlias, validAtLeastYears 1]
   = check cd [requireSubject L, requireAlias, requireParentAlias, validAtLeastYears 1]"
  by (simp add: requireSubject_def requireAlias_def requireParentAlias_def validAtLeastYears_def)

lemma signings_append [simp]: "signings (xs @ ys) = signings xs @ signings ys"
  by (induction xs rule: signings.induct) simp_all

lemma issued_append [simp]: "issued (xs @ ys) = issued xs @ issued ys"
  by (simp add: issued_def)

lemma load_signings [simp]: "signings (trace (snd (load L cm w alias))) = signings (trace w)"
  by (simp add: load_def Let_def split_beta emit_def split: sum.splits option.splits)

lemma GenerateKey_signings [simp]:
  "signings (trace (snd (GenerateKey L w bits))) = signings (trace w)"
  by (simp add: GenerateKey_def split_beta emit_def)

lemma CreateCertificate_signings [simp]:
  "signings (trace (snd (CreateCertificate L w template parent pub priv))) =
     signings (trace w) @ [(template, parent)]"
  by (simp add: CreateCertificate_def split_beta emit_def)

lemma os_WriteFile_signings [simp]:
  "signings (trace (snd (os_WriteFile w name data perm))) = signings (trace w)"
  by (simp add: os_WriteFile_def emit_def split: option.splits)

lemma save_signings [simp]:
  "signings (trace (snd (save L cm w cert key alias))) = signings (trace w)"
  by (simp add: save_def split_beta split: sum.splits option.splits)

lemma create_parent:
  assumes "fst (create L cm w cd) = None"
  shows "\<exists>t p. signings (trace (snd (create L cm w cd))) = signings (trace w) @ [(t, p)]
     \<and> Certificate.Subject t = CertData.Subject cd
     \<and> (if SelfSigned cd then p = t \<and> Certificate.Issuer t = CertData.Issuer cd
         else (\<exists>ch. fst (load L cm w (ParentAlias cd)) = Inr ch \<and> p = Cert ch
                \<and> Certificate.Issuer t = Certificate.Subject (Cert ch)))"
proof (cases "SelfSigned cd"; cases "CertData.IsCA cd"; cases "Serial cd = 0")
qed (use assms in \<open>auto simp: create_def split_beta Let_def load_after_clock
      split: sum.splits option.splits\<close>)

text \<open>
  Claim C1, what the code does. When \<open>NewIntermediateCA\<close> or \<open>NewLeaf\<close> succeeds, the
  parent alias is non-empty, the parent pair loaded, and the one call of
  \<open>x509.CreateCertificate\<close> has the parent's certificate as its parent argument: the
  issuer of the certificate issued is the subject of the parent's certificate, and the
  issuer field of the descriptor has no influence on the result at all. When
  \<open>NewRootCA\<close> succeeds, the template is its own parent: \<open>create\<close> stores the
  descriptor's issuer in the template, where the library does not read it, and the
  issuer of the certificate issued is the descriptor's subject, whatever its issuer
  field holds.
\<close>

theorem issuer_is_parent_subject:
  "(fst (NewIntermediateCA L cm w cd) = None \<longrightarrow>
      ParentAlias cd \<noteq> []
    \<and> (\<exists>ch t. fst (load L cm w (ParentAlias cd)) = Inr ch
          \<and> signings (trace (snd (snd (NewIntermediateCA L cm w cd)))) =
              signings (trace w) @ [(t, Cert ch)]
          \<and> issued (trace (snd (snd (NewIntermediateCA L cm w cd)))) =
              issued (trace w) @ [certificate_of t (Cert ch)]
          \<and> Certificate.Issuer (certificate_of t (Cert ch)) = Certificate.Subject (Cert ch)
          \<and> Certificate.Issuer t = Certificate.Subject (Cert ch)))
   \<and> (fst (NewLeaf L cm w cd) = None \<longrightarrow>
      ParentAlias cd \<noteq> []
    \<and> (\<exists>ch t. fst (load L cm w (ParentAlias cd)) = Inr ch
          \<and> signings (trace (snd (snd (NewLeaf L cm w cd)))) =
              signings (trace w) @ [(t, Cert ch)]
          \<and> issued (trace (snd (snd (NewLeaf L cm w cd)))) =
              issued (trace w) @ [certificate_of t (Cert ch)]
          \<and> Certificate.Issuer (certificate_of t (Cert ch)) = Certificate.Subject (Cert ch)
          \<and> Certificate.Issuer t = Certificate.Subject (Cert ch)))
   \<and> fst (NewIntermediateCA L cm w (cd\<lparr>CertData.Issuer := i\<rparr>)) = fst (NewIntermediateCA L cm w cd)
   \<and> snd (snd (NewIntermediateCA L cm w (cd\<lparr>CertData.Issuer := i\<rparr>))) =
       snd (snd (NewIntermediateCA L cm w cd))
   \<and> fst (NewLeaf L cm w (cd\<lparr>CertData.Issuer := i\<rparr>)) = fst (NewLeaf L cm w cd)
   \<and> snd (snd (NewLeaf L cm w (cd\<lparr>CertData.Issuer := i\<rparr>))) = snd (snd (NewLeaf L cm w cd))
   \<and> (fst (NewRootCA L cm w cd) = None \<longrightarrow>
      (\<exists>t. signings (trace (snd (snd (NewRootCA L cm w cd)))) = signings (trace w) @ [(t, t)]
          \<and> Certificate.Subject t = CertData.Subject cd
          \<and> Certificate.Issuer t = CertData.Issuer cd
          \<and> issued (trace (snd (snd (NewRootCA L cm w cd)))) =
              issued (trace w) @ [certificate_of t t]
          \<and> Certificate.Issuer (certificate_of t t) = CertData.Subject cd))"
proof (intro conjI impI)
  assume a: "fst (NewIntermediateCA L cm w cd) = None"
  from NewIntermediateCA_success [OF a] show "ParentAlias cd \<noteq> []" by simp
  from NewIntermediateCA_success [OF a]
    create_parent [of L cm w "cd\<lparr>SelfSigned := False, CertData.IsCA := True\<rparr>"]
  show "\<exists>ch t. fst (load L cm w (ParentAlias cd)) = Inr ch
          \<and> signings (trace (snd (snd (NewIntermediateCA L cm w cd)))) =
              signings (trace w) @ [(t, Cert ch)]
          \<and> issued (trace (snd (snd (NewIntermediateCA L cm w cd)))) =
              issued (trace w) @ [certificate_of t (Cert ch)]
          \<and> Certificate.Issuer (certificate_of t (Cert ch)) = Certificate.Subject (Cert ch)
          \<and> Certificate.Issuer t = Certificate.Subject (Cert ch)"
    by (auto simp: issued_def certificate_of_def)
next
  assume a: "fst (NewLeaf L cm w cd) = None"
  from NewLeaf_success [OF a] show "ParentAlias cd \<noteq> []" by simp
  from NewLeaf_success [OF a]
    create_parent [of L cm w "cd\<lparr>SelfSigned := False, CertData.IsCA := False\<rparr>"]
  show "\<exists>ch t. fst (load L cm w (ParentAlias cd)) = Inr ch
          \<and> signings (trace (snd (snd (NewLeaf L cm w cd)))) =
              signings (trace w) @ [(t, Cert ch)]
          \<and> issued (trace (snd (snd (NewLeaf L cm w cd)))) =
              issued (trace w) @ [certificate_of t (Cert ch)]
          \<and> Certificate.Issuer (certificate_of t (Cert ch)) = Certificate.Subject (Cert ch)
          \<and> Certificate.Issuer t = Certificate.Subject (Cert ch)"
    by (auto simp: issued_def certificate_of_def)
next
  assume a: "fst (NewRootCA L cm w cd) = None"
  from NewRootCA_success [OF a]
    create_parent [of L cm w "cd\<lparr>SelfSigned := True, CertData.IsCA := True\<rparr>"]
  show "\<exists>t. signings (trace (snd (snd (NewRootCA L cm w cd)))) = signings (trace w) @ [(t, t)]
          \<and> Certificate.Subject t = CertData.Subject cd
          \<and> Certificate.Issuer t = CertData.Issuer cd
          \<and> issued (trace (snd (snd (NewRootCA L cm w cd)))) =
              issued (trace w) @ [certificate_of t t]
          \<and> Certificate.Issuer (certificate_of t t) = CertData.Subject cd"
    by (auto simp: issued_def certificate_of_def)
next
  have c: "create L cm w (cd\<lparr>CertData.Issuer := i, SelfSigned := False, CertData.IsCA := True\<rparr>)
      = create L cm w (cd\<lparr>SelfSigned := False, CertData.IsCA := True\<rparr>)"
    by (simp add: create_def getKeyUsage_def split_beta Let_def
        cong: sum.case_cong option.case_cong if_cong)
  show "fst (NewIntermediateCA L cm w (cd\<lparr>CertData.Issuer := i\<rparr>)) = fst (NewIntermediateCA L cm w cd)"
    and "snd (snd (NewIntermediateCA L cm w (cd\<lparr>CertData.Issuer := i\<rparr>))) =
       snd (snd (NewIntermediateCA L cm w cd))"
    by (simp_all add: NewIntermediateCA_def check_ignores_Issuer c Let_def split_beta
        del: check.simps split: option.splits)
next
  have c: "create L cm w (cd\<lparr>CertData.Issuer := i, SelfSigned := False, CertData.IsCA := False\<rparr>)
      = create L cm w (cd\<lparr>SelfSigned := False, CertData.IsCA := False\<rparr>)"
    by (simp add: create_def getKeyUsage_def split_beta Let_def
        cong: sum.case_cong option.case_cong if_cong)
  show "fst (NewLeaf L cm w (cd\<lparr>CertData.Issuer := i\<rparr>)) = fst (NewLeaf L cm w cd)"
    and "snd (snd (NewLeaf L cm w (cd\<lparr>CertData.Issuer := i\<rparr>))) = snd (snd (NewLeaf L cm w cd))"
    by (simp_all add: NewLeaf_def check_ignores_Issuer c Let_def split_beta
        del: check.simps split: option.splits)
qed

lemmas eval_lib = simple_def simple_Name_String_def simple_Decode_def simple_Encode_def
  simple_ParseCertificate_def simple_ParseKey_def simple_GenerateKey_def
  simple_CreateCertificate_def attrs_def named_def zero_Name_def blank_def

lemmas eval_ops = NewRootCA_def NewIntermediateCA_def NewLeaf_def create_def load_def save_def
  requireSubject_def requireAlias_def requireParentAlias_def validAtLeastYears_def
  getKeyUsage_def GenerateKey_def CreateCertificate_def time_Now_def os_ReadFile_def
  os_WriteFile_def typeCert_def typeRsaPrivateKey_def word_sless_alt Let_def

lemma root_issued: "fst (NewRootCA simple here empty_world root_request) = None"
  by (simp add: root_request_def eval_ops eval_lib eval_world)

lemma im_issued: "fst (NewIntermediateCA simple here root_world im_request) = None"
  by (simp add: im_request_def eval_ops eval_lib eval_world)

lemma leaf_issued: "fst (NewLeaf simple here root_world leaf_request) = None"
  by (simp add: leaf_request_def eval_ops eval_lib eval_world)

text \<open>
  Claim C2. A certificate issued by \<open>NewRootCA\<close> or \<open>NewIntermediateCA\<close> is an
  authority's, its key usage is certificate signing and CRL signing and nothing else,
  and it has no extended key usage and no DNS or IP names. One issued by \<open>NewLeaf\<close>
  is not an authority's, its key usage is data encipherment and digital signature and
  nothing else, its extended key usage is client and server authentication, and its DNS
  and IP names are the descriptor's. The two key usages share no bit.
\<close>

theorem key_usage_policy:
  "(fst (NewRootCA L cm w cd) = None \<longrightarrow>
      (\<exists>t. signed (trace (snd (snd (NewRootCA L cm w cd)))) = signed (trace w) @ [t]
          \<and> Certificate.IsCA t
          \<and> KeyUsage t = KeyUsageCertSign OR KeyUsageCRLSign
          \<and> ExtKeyUsage t = [] \<and> DNSNames t = [] \<and> IPAddresses t = []))
   \<and> (fst (NewIntermediateCA L cm w cd) = None \<longrightarrow>
      (\<exists>t. signed (trace (snd (snd (NewIntermediateCA L cm w cd)))) = signed (trace w) @ [t]
          \<and> Certificate.IsCA t
          \<and> KeyUsage t = KeyUsageCertSign OR KeyUsageCRLSign
          \<and> ExtKeyUsage t = [] \<and> DNSNames t = [] \<and> IPAddresses t = []))
   \<and> (fst (NewLeaf L cm w cd) = None \<longrightarrow>
      (\<exists>t. signed (trace (snd (snd (NewLeaf L cm w cd)))) = signed (trace w) @ [t]
          \<and> \<not> Certificate.IsCA t
          \<and> KeyUsage t = KeyUsageDataEncipherment OR KeyUsageDigitalSignature
          \<and> ExtKeyUsage t = [ExtKeyUsageClientAuth, ExtKeyUsageServerAuth]
          \<and> DNSNames t = DNSSan cd \<and> IPAddresses t = IPSan cd))
   \<and> (KeyUsageCertSign OR KeyUsageCRLSign)
       AND (KeyUsageDataEncipherment OR KeyUsageDigitalSignature) = 0"
proof (intro conjI impI)
  assume a: "fst (NewRootCA L cm w cd) = None"
  from NewRootCA_success [OF a]
    create_signs [of L cm w "cd\<lparr>SelfSigned := True, CertData.IsCA := True\<rparr>"]
  show "\<exists>t. signed (trace (snd (snd (NewRootCA L cm w cd)))) = signed (trace w) @ [t]
          \<and> Certificate.IsCA t
          \<and> KeyUsage t = KeyUsageCertSign OR KeyUsageCRLSign
          \<and> ExtKeyUsage t = [] \<and> DNSNames t = [] \<and> IPAddresses t = []"
    by (auto simp: getKeyUsage_def)
next
  assume a: "fst (NewIntermediateCA L cm w cd) = None"
  from NewIntermediateCA_success [OF a]
    create_signs [of L cm w "cd\<lparr>SelfSigned := False, CertData.IsCA := True\<rparr>"]
  show "\<exists>t. signed (trace (snd (snd (NewIntermediateCA L cm w cd)))) = signed (trace w) @ [t]
          \<and> Certificate.IsCA t
          \<and> KeyUsage t = KeyUsageCertSign OR KeyUsageCRLSign
          \<and> ExtKeyUsage t = [] \<and> DNSNames t = [] \<and> IPAddresses t = []"
    by (auto simp: getKeyUsage_def)
next
  assume a: "fst (NewLeaf L cm w cd) = None"
  from NewLeaf_success [OF a]
    create_signs [of L cm w "cd\<lparr>SelfSigned := False, CertData.IsCA := False\<rparr>"]
  show "\<exists>t. signed (trace (snd (snd (NewLeaf L cm w cd)))) = signed (trace w) @ [t]
          \<and> \<not> Certificate.IsCA t
          \<and> KeyUsage t = KeyUsageDataEncipherment OR KeyUsageDigitalSignature
          \<and> ExtKeyUsage t = [ExtKeyUsageClientAuth, ExtKeyUsageServerAuth]
          \<and> DNSNames t = DNSSan cd \<and> IPAddresses t = IPSan cd"
    by (auto simp: getKeyUsage_def)
next
  show "(KeyUsageCertSign OR KeyUsageCRLSign)
       AND (KeyUsageDataEncipherment OR KeyUsageDigitalSignature) = 0"
    by (simp add: KeyUsageCertSign_def KeyUsageCRLSign_def KeyUsageDataEncipherment_def
        KeyUsageDigitalSignature_def)
qed

theorem key_usage_policy_witness:
  "fst (NewRootCA simple here empty_world root_request) = None
   \<and> (\<exists>t. signed (trace (snd (snd (NewRootCA simple here empty_world root_request)))) =
            signed (trace empty_world) @ [t]
          \<and> Certificate.IsCA t
          \<and> KeyUsage t = KeyUsageCertSign OR KeyUsageCRLSign
          \<and> ExtKeyUsage t = [] \<and> DNSNames t = [] \<and> IPAddresses t = [])
   \<and> fst (NewIntermediateCA simple here root_world im_request) = None
   \<and> (\<exists>t. signed (trace (snd (snd (NewIntermediateCA simple here root_world im_request)))) =
            signed (trace root_world) @ [t]
          \<and> Certificate.IsCA t
          \<and> KeyUsage t = KeyUsageCertSign OR KeyUsageCRLSign
          \<and> ExtKeyUsage t = [] \<and> DNSNames t = [] \<and> IPAddresses t = [])
   \<and> fst (NewLeaf simple here root_world leaf_request) = None
   \<and> (\<exists>t. signed (trace (snd (snd (NewLeaf simple here root_world leaf_request)))) =
            signed (trace root_world) @ [t]
          \<and> \<not> Certificate.IsCA t
          \<and> KeyUsage t = KeyUsageDataEncipherment OR KeyUsageDigitalSignature
          \<and> ExtKeyUsage t = [ExtKeyUsageClientAuth, ExtKeyUsageServerAuth]
          \<and> DNSNames t = [''srv.example.com''] \<and> IPAddresses t = [])"
proof -
  have d: "DNSSan leaf_request = [''srv.example.com'']" "IPSan leaf_request = []"
    by (simp_all add: leaf_request_def blank_def)
  show ?thesis
    using key_usage_policy [of simple here empty_world root_request]
      key_usage_policy [of simple here root_world im_request]
      key_usage_policy [of simple here root_world leaf_request]
      root_issued im_issued leaf_issued
    unfolding d by blast
qed

text \<open>
  Claim C4. The serial number of every certificate issued is the descriptor's serial
  when that is not zero, and zero otherwise: a value fixed by the descriptor alone,
  whatever the state of the random source.
\<close>

theorem serial_number:
  "(fst (NewRootCA L cm w cd) = None \<longrightarrow>
      (\<exists>t. signed (trace (snd (snd (NewRootCA L cm w cd)))) = signed (trace w) @ [t]
          \<and> Certificate.SerialNumber t = Some (if Serial cd \<noteq> 0 then sint (Serial cd) else 0)))
   \<and> (fst (NewIntermediateCA L cm w cd) = None \<longrightarrow>
      (\<exists>t. signed (trace (snd (snd (NewIntermediateCA L cm w cd)))) = signed (trace w) @ [t]
          \<and> Certificate.SerialNumber t = Some (if Serial cd \<noteq> 0 then sint (Serial cd) else 0)))
   \<and> (fst (NewLeaf L cm w cd) = None \<longrightarrow>
      (\<exists>t. signed (trace (snd (snd (NewLeaf L cm w cd)))) = signed (trace w) @ [t]
          \<and> Certificate.SerialNumber t = Some (if Serial cd \<noteq> 0 then sint (Serial cd) else 0)))"
proof (intro conjI impI)
  assume a: "fst (NewRootCA L cm w cd) = None"
  from NewRootCA_success [OF a]
    create_signs [of L cm w "cd\<lparr>SelfSigned := True, CertData.IsCA := True\<rparr>"]
  show "\<exists>t. signed (trace (snd (snd (NewRootCA L cm w cd)))) = signed (trace w) @ [t]
          \<and> Certificate.SerialNumber t = Some (if Serial cd \<noteq> 0 then sint (Serial cd) else 0)"
    by auto
next
  assume a: "fst (NewIntermediateCA L cm w cd) = None"
  from NewIntermediateCA_success [OF a]
    create_signs [of L cm w "cd\<lparr>SelfSigned := False, CertData.IsCA := True\<rparr>"]
  show "\<exists>t. signed (trace (snd (snd (NewIntermediateCA L cm w cd)))) = signed (trace w) @ [t]
          \<and> Certificate.SerialNumber t = Some (if Serial cd \<noteq> 0 then sint (Serial cd) else 0)"
    by auto
next
  assume a: "fst (NewLeaf L cm w cd) = None"
  from NewLeaf_success [OF a]
    create_signs [of L cm w "cd\<lparr>SelfSigned := False, CertData.IsCA := False\<rparr>"]
  show "\<exists>t. signed (trace (snd (snd (NewLeaf L cm w cd)))) = signed (trace w) @ [t]
          \<and> Certificate.SerialNumber t = Some (if Serial cd \<noteq> 0 then sint (Serial cd) else 0)"
    by auto
qed

theorem serial_number_witness:
  "fst (NewRootCA simple here empty_world root_request) = None
   \<and> (\<exists>t. signed (trace (snd (snd (NewRootCA simple here empty_world root_request)))) =
            signed (trace empty_world) @ [t]
          \<and> Certificate.SerialNumber t = Some 7)
   \<and> fst (NewIntermediateCA simple here root_world im_request) = None
   \<and> (\<exists>t. signed (trace (snd (snd (NewIntermediateCA simple here root_world im_request)))) =
            signed (trace root_world) @ [t]
          \<and> Certificate.SerialNumber t = Some 0)
   \<and> fst (NewLeaf simple here root_world leaf_request) = None
   \<and> (\<exists>t. signed (trace (snd (snd (NewLeaf simple here root_world leaf_request)))) =
            signed (trace root_world) @ [t]
          \<and> Certificate.SerialNumber t = Some 0)"
proof -
  have s: "Serial root_request = 7" "Serial im_request = 0" "Serial leaf_request = 0"
    by (simp_all add: root_request_def im_request_def leaf_request_def blank_def)
  show ?thesis
    using serial_number [of simple here empty_world root_request]
      serial_number [of simple here root_world im_request]
      serial_number [of simple here root_world leaf_request]
      root_issued im_issued leaf_issued
    by (simp add: s)
qed

lemma odd_root_issued: "fst (NewRootCA simple here empty_world odd_root_request) = None"
  by (simp add: odd_root_request_def root_request_def eval_ops eval_lib eval_world)

theorem issuer_is_parent_subject_witness:
  "fst (NewRootCA simple here empty_world odd_root_request) = None
   \<and> CertData.Subject odd_root_request = named ''Root''
   \<and> CertData.Issuer odd_root_request = named ''Somebody''
   \<and> named ''Somebody'' \<noteq> named ''Root''
   \<and> (\<exists>c. issued (trace (snd (snd (NewRootCA simple here empty_world odd_root_request)))) = [c]
         \<and> Certificate.Issuer c = named ''Root'')
   \<and> fst (NewIntermediateCA simple here root_world im_request) = None
   \<and> (\<exists>ch c. fst (load simple here root_world ''root'') = Inr ch
         \<and> issued (trace (snd (snd (NewIntermediateCA simple here root_world im_request)))) = [c]
         \<and> Certificate.Issuer c = Certificate.Subject (Cert ch))
   \<and> fst (NewLeaf simple here root_world leaf_request) = None
   \<and> (\<exists>ch c. fst (load simple here root_world ''root'') = Inr ch
         \<and> issued (trace (snd (snd (NewLeaf simple here root_world leaf_request)))) = [c]
         \<and> Certificate.Issuer c = Certificate.Subject (Cert ch))"
proof -
  have r: "CertData.Subject odd_root_request = named ''Root''"
      "CertData.Issuer odd_root_request = named ''Somebody''"
      "named ''Somebody'' \<noteq> named ''Root''"
      "ParentAlias im_request = ''root''" "ParentAlias leaf_request = ''root''"
      "issued (trace empty_world) = []" "issued (trace root_world) = []"
    by (simp_all add: odd_root_request_def root_request_def im_request_def leaf_request_def
        blank_def named_def zero_Name_def issued_def eval_world)
  from issuer_is_parent_subject [of simple here empty_world odd_root_request zero_Name]
    odd_root_issued
  have root: "\<exists>c. issued (trace (snd (snd (NewRootCA simple here empty_world odd_root_request)))) = [c]
         \<and> Certificate.Issuer c = named ''Root''"
    unfolding r by auto
  from issuer_is_parent_subject [of simple here root_world im_request zero_Name] im_issued
  have im: "\<exists>ch c. fst (load simple here root_world ''root'') = Inr ch
         \<and> issued (trace (snd (snd (NewIntermediateCA simple here root_world im_request)))) = [c]
         \<and> Certificate.Issuer c = Certificate.Subject (Cert ch)"
    unfolding r by auto
  from issuer_is_parent_subject [of simple here root_world leaf_request zero_Name] leaf_issued
  have leaf: "\<exists>ch c. fst (load simple here root_world ''root'') = Inr ch
         \<and> issued (trace (snd (snd (NewLeaf simple here root_world leaf_request)))) = [c]
         \<and> Certificate.Issuer c = Certificate.Subject (Cert ch)"
    unfolding r by auto
  show ?thesis
    using root im leaf odd_root_issued im_issued leaf_issued r by simp
qed




section \<open>Loading at concrete directories\<close>

lemmas eval_load = eval_lib eval_world garbled_world_def cert_only_world_def os_ReadFile_def
  typeCert_def typeRsaPrivateKey_def

text \<open>
  Claim C5, as stated, fails: with a key file that is missing and a certificate file
  whose content is the seven bytes \<open>garbage\<close> (no encoded block, for Go's \<open>pem.Decode\<close>
  as for the instance here), \<open>Get\<close> returns the format error of the certificate file,
  which is not a not-found error; the key file is never read.
\<close>

theorem load_first_failure_counterexample:
  "fault garbled_world ''./root.key'' = None
   \<and> map_of (files garbled_world) ''./root.key'' = None
   \<and> fst (Get simple here garbled_world ''root'') = Inl (ErrCantLoadCertificate ''./root.pem'')
   \<and> \<not> os_IsNotExist (ErrCantLoadCertificate ''./root.pem'')"
  by (simp add: Get_def load_def Let_def eval_load)

theorem load_checks_witness:
  "fault empty_world ''./root.pem'' = None \<and> map_of (files empty_world) ''./root.pem'' = None
   \<and> fst (load simple here empty_world ''root'') = Inl (PathError ''open'' ''./root.pem'' ENOENT)
   \<and> fst (os_ReadFile garbled_world ''./root.pem'') = Inr ''garbage''
   \<and> pem_Decode simple ''garbage'' = None
   \<and> fst (load simple here garbled_world ''root'') = Inl (ErrCantLoadCertificate ''./root.pem'')
   \<and> fault cert_only_world ''./root.key'' = None
   \<and> map_of (files cert_only_world) ''./root.key'' = None
   \<and> fst (load simple here cert_only_world ''root'') =
       Inl (PathError ''open'' ''./root.key'' ENOENT)
   \<and> (\<exists>ph. fst (load simple here root_world ''root'') = Inr ph
         \<and> x509_ParseCertificate simple ''cert:Root'' = Inr (Cert ph)
         \<and> x509_ParsePKCS1PrivateKey simple ''key:'' = Inr (Key ph))"
proof -
  have missing:
    "fst (load simple here empty_world ''root'') = Inl (PathError ''open'' ''./root.pem'' ENOENT)"
    using load_checks [of empty_world here "''root''" simple]
    by (simp add: eval_world)
  have garbled:
    "fst (load simple here garbled_world ''root'') = Inl (ErrCantLoadCertificate ''./root.pem'')"
    using load_checks [of garbled_world here "''root''" simple,
        THEN conjunct2, THEN conjunct2, THEN conjunct1, rule_format, of "''garbage''"]
    by (simp add: eval_load)
  have c: "fst (os_ReadFile cert_only_world ''./root.pem'') =
        Inr (''CERTIFICATE'' @ [CHR 0x0A] @ ''cert:Root'')"
      "pem_Decode simple (''CERTIFICATE'' @ [CHR 0x0A] @ ''cert:Root'') =
        Some \<lparr>Type = ''CERTIFICATE'', Headers = [], Bytes = ''cert:Root''\<rparr>"
      "fst (os_ReadFile root_world ''./root.pem'') =
        Inr (''CERTIFICATE'' @ [CHR 0x0A] @ ''cert:Root'')"
      "fst (os_ReadFile root_world ''./root.key'') =
        Inr (''RSA PRIVATE KEY'' @ [CHR 0x0A] @ ''key:'')"
      "pem_Decode simple (''RSA PRIVATE KEY'' @ [CHR 0x0A] @ ''key:'') =
        Some \<lparr>Type = ''RSA PRIVATE KEY'', Headers = [], Bytes = ''key:''\<rparr>"
    by (simp_all add: eval_load)
  obtain cert where cert: "x509_ParseCertificate simple ''cert:Root'' = Inr cert"
    by (simp add: eval_lib)
  obtain pKey where pKey: "x509_ParsePKCS1PrivateKey simple ''key:'' = Inr pKey"
    by (simp add: eval_lib)
  have key_missing:
    "fst (load simple here cert_only_world ''root'') =
       Inl (PathError ''open'' ''./root.key'' ENOENT)"
    using load_checks [of cert_only_world here "''root''" simple,
        THEN conjunct2, THEN conjunct2, THEN conjunct2, THEN conjunct2, THEN conjunct1,
        rule_format, of "''CERTIFICATE'' @ [CHR 0x0A] @ ''cert:Root''"
          "\<lparr>Type = ''CERTIFICATE'', Headers = [], Bytes = ''cert:Root''\<rparr>" cert]
      c cert
    by (simp add: eval_world cert_only_world_def typeCert_def)
  have ok: "fst (load simple here root_world ''root'') = Inr \<lparr>Cert = cert, Key = pKey\<rparr>"
    using load_checks [of root_world here "''root''" simple,
        THEN conjunct2, THEN conjunct2, THEN conjunct2, THEN conjunct2, THEN conjunct1,
        rule_format, of "''CERTIFICATE'' @ [CHR 0x0A] @ ''cert:Root''"
          "\<lparr>Type = ''CERTIFICATE'', Headers = [], Bytes = ''cert:Root''\<rparr>" cert,
        THEN conjunct2, THEN conjunct2, THEN conjunct2, THEN conjunct2, rule_format,
        of "''RSA PRIVATE KEY'' @ [CHR 0x0A] @ ''key:''"
          "\<lparr>Type = ''RSA PRIVATE KEY'', Headers = [], Bytes = ''key:''\<rparr>" pKey]
      c cert pKey
    by (simp add: eval_world typeCert_def typeRsaPrivateKey_def)
  have e: "fst (os_ReadFile garbled_world ''./root.pem'') = Inr ''garbage''"
      "pem_Decode simple ''garbage'' = None"
    by (simp_all add: eval_load)
  show ?thesis
    using missing garbled key_missing ok cert pKey e
    by (simp add: eval_world cert_only_world_def)
qed

end
